theory Spec2Isabelle
  imports Complex_Main "HOL-Library.Monad_Syntax"
begin

section \<open>The animation engine's objects, as the scene scripts use them\<close>

text \<open>
  The scene scripts build visual objects through the animation engine's constructors
  (\<open>Text\<close>, \<open>VGroup\<close>, \<open>SurroundingRectangle\<close>, \<open>Arrow\<close>), change them in place through its
  methods (\<open>move_to\<close>, \<open>scale\<close>, \<open>arrange\<close>, \<open>next_to\<close>, ...) and ask it for points
  (\<open>get_top\<close>, \<open>get_bottom\<close>, ...). The engine itself is outside the repository, so an
  object is modelled by what the script did to it: an identity (\<open>oid\<close>, the order of its
  allocation, standing for Python's object identity), its constructor call (\<open>shape\<close>), its
  sub-objects, and the method calls it has received (\<open>history\<close>, each with the identity of
  the receiver of the call, since a call on a group reaches every member of its family).
  A point the engine is asked for is kept as the question (\<open>Critical m d\<close>: the critical
  point of \<open>m\<close>, in the state it had at the call, in direction \<open>d\<close>); \<open>eval_pt\<close> answers
  it for any bounding-box function of the engine. Python floats are modelled by reals.
\<close>

datatype color = WHITE | GRAY | BLUE | GREEN | YELLOW | ORANGE | RED | PURPLE

datatype weight = NORMAL | BOLD

datatype mobject = Mobject (oid: nat) (shape: shape) (submobjects: "mobject list")
    (history: "(nat \<times> meth) list")
and shape =
    Text string real color weight string
  | VGroup
  | SurroundingRectangle mobject color real "real option" real
  | Arrow pt pt color real real real
and pt =
    Vec real real real
  | Critical mobject pt
  | PAdd pt pt
  | PMul pt real
and meth =
    Arrange pt pt real
  | NextTo mobject pt real
  | MoveTo pt
  | Scale real
  | Shift pt
  | ToCorner pt "real option"
  | ToEdge pt "real option"
  | SetOpacity real
  | SetStroke real real
  | SetColor color
  | TipSetStroke real real
  | TipSetFill color real

text \<open>The engine's direction constants.\<close>

definition ORIGIN :: pt where "ORIGIN = Vec 0 0 0"
definition UP :: pt where "UP = Vec 0 1 0"
definition DOWN :: pt where "DOWN = Vec 0 (- 1) 0"
definition LEFT :: pt where "LEFT = Vec (- 1) 0 0"
definition RIGHT :: pt where "RIGHT = Vec 1 0 0"
definition UL :: pt where "UL = Vec (- 1) 1 0"

text \<open>Allocation: a constructor call takes the next free identity and returns the object
  with the allocator advanced.\<close>

definition new_Text :: "string \<Rightarrow> real \<Rightarrow> color \<Rightarrow> weight \<Rightarrow> string \<Rightarrow> nat \<Rightarrow> mobject \<times> nat" where
  "new_Text s font_size c w font h = (Mobject h (Text s font_size c w font) [] [], Suc h)"

definition new_VGroup :: "mobject list \<Rightarrow> nat \<Rightarrow> mobject \<times> nat" where
  "new_VGroup ms h = (Mobject h VGroup ms [], Suc h)"

definition new_SurroundingRectangle ::
  "mobject \<Rightarrow> color \<Rightarrow> real \<Rightarrow> real option \<Rightarrow> real \<Rightarrow> nat \<Rightarrow> mobject \<times> nat" where
  "new_SurroundingRectangle m c buff corner_radius stroke_width h =
     (Mobject h (SurroundingRectangle m c buff corner_radius stroke_width) [] [], Suc h)"

definition new_Arrow ::
  "pt \<Rightarrow> pt \<Rightarrow> color \<Rightarrow> real \<Rightarrow> real \<Rightarrow> real \<Rightarrow> nat \<Rightarrow> mobject \<times> nat" where
  "new_Arrow start end c buff stroke_width tip_length h =
     (Mobject h (Arrow start end c buff stroke_width tip_length) [] [], Suc h)"

text \<open>A method call changes the receiver and every member of its family in place.\<close>

fun record_call :: "nat \<times> meth \<Rightarrow> mobject \<Rightarrow> mobject" where
  "record_call c (Mobject i sh subs hist) = Mobject i sh (map (record_call c) subs) (hist @ [c])"

fun call :: "meth \<Rightarrow> mobject \<Rightarrow> mobject" where
  "call me (Mobject i sh subs hist) = record_call (i, me) (Mobject i sh subs hist)"

text \<open>\<open>group.add(m)\<close>; the scripts never add an object to a group twice.\<close>

fun add :: "mobject \<Rightarrow> mobject \<Rightarrow> mobject" where
  "add (Mobject i sh subs hist) m = Mobject i sh (subs @ [m]) hist"

definition get_top :: "mobject \<Rightarrow> pt" where "get_top m = Critical m UP"
definition get_bottom :: "mobject \<Rightarrow> pt" where "get_bottom m = Critical m DOWN"
definition get_left :: "mobject \<Rightarrow> pt" where "get_left m = Critical m LEFT"
definition get_right :: "mobject \<Rightarrow> pt" where "get_right m = Critical m RIGHT"
definition get_center :: "mobject \<Rightarrow> pt" where "get_center m = Critical m ORIGIN"

text \<open>Python's \<open>group[i]\<close>: a negative index counts from the end, an index out of range
  raises (\<open>None\<close>).\<close>

definition getitem :: "'a list \<Rightarrow> int \<Rightarrow> 'a option" where
  "getitem xs i =
     (let n = int (length xs); j = (if i < 0 then n + i else i)
      in if 0 \<le> j \<and> j < n then Some (xs ! nat j) else None)"

section \<open>The block box builders\<close>

text \<open>The loop \<open>for stmt in statements: stmt_group.add(Text(stmt, ...))\<close>.\<close>

fun add_stmts :: "string list \<Rightarrow> mobject \<Rightarrow> nat \<Rightarrow> mobject \<times> nat" where
  "add_stmts [] stmt_group h = (stmt_group, h)"
| "add_stmts (stmt # stmts) stmt_group h =
     (let (stmt_text, h) = new_Text stmt 20 WHITE NORMAL [] h
      in add_stmts stmts (add stmt_group stmt_text) h)"

definition BuildBasicBlocks_create_block_box ::
  "string \<Rightarrow> string list \<Rightarrow> color \<Rightarrow> nat \<Rightarrow> mobject \<times> nat" where
  "BuildBasicBlocks_create_block_box block_id statements c h =
     (let (title, h) = new_Text block_id 24 c BOLD [] h;
          (stmt_group, h) = new_VGroup [] h;
          (stmt_group, h) =
            (if statements \<noteq> [] then
               (let (stmt_group, h) = add_stmts statements stmt_group h
                in (call (Arrange DOWN LEFT 0.15) stmt_group, h))
             else
               (let (stmt_text, h) = new_Text ''(empty)'' 20 GRAY NORMAL [] h
                in (add stmt_group stmt_text, h)));
          content = stmt_group;
          (box, h) = new_SurroundingRectangle content c 0.3 (Some 0.3) 3 h;
          title = call (NextTo box UP 0.2) title;
          (block, h) = new_VGroup [title, box, content] h
      in (block, h))"

definition FinalCFG_create_block_box ::
  "string \<Rightarrow> string list \<Rightarrow> color \<Rightarrow> nat \<Rightarrow> mobject \<times> nat" where
  "FinalCFG_create_block_box block_id statements c h =
     (let (title, h) = new_Text block_id 24 c BOLD [] h;
          (stmt_group, h) = new_VGroup [] h;
          (stmt_group, h) =
            (if statements \<noteq> [] then
               (let (stmt_group, h) = add_stmts statements stmt_group h
                in (call (Arrange DOWN LEFT 0.15) stmt_group, h))
             else
               (let (stmt_text, h) = new_Text ''(empty)'' 20 GRAY NORMAL [] h
                in (add stmt_group stmt_text, h)));
          content = stmt_group;
          (box, h) = new_SurroundingRectangle content c 0.3 (Some 0.3) 3 h;
          title = call (NextTo box UP 0.2) title;
          (block, h) = new_VGroup [title, box, content] h
      in (block, h))"

definition BlockMerging_create_block_box ::
  "string \<Rightarrow> string list \<Rightarrow> color \<Rightarrow> nat \<Rightarrow> mobject \<times> nat" where
  "BlockMerging_create_block_box block_id statements c h =
     (let (title, h) = new_Text block_id 24 c BOLD [] h;
          (stmt_group, h) = new_VGroup [] h;
          (stmt_group, h) =
            (if statements \<noteq> [] then
               (let (stmt_group, h) = add_stmts statements stmt_group h
                in (call (Arrange DOWN LEFT 0.15) stmt_group, h))
             else
               (let (stmt_text, h) = new_Text ''(empty)'' 20 GRAY NORMAL [] h
                in (add stmt_group stmt_text, h)));
          content = stmt_group;
          (box, h) = new_SurroundingRectangle content c 0.3 (Some 0.3) 3 h;
          title = call (NextTo box UP 0.2) title;
          (block, h) = new_VGroup [title, box, content] h
      in (block, h))"

section \<open>Scenes: what a scene records\<close>

text \<open>
  A scene hands objects and animations to the engine in program order; the model keeps
  that order as a list of events. What the engine then draws is outside the repository.
\<close>

datatype anim =
    Write mobject
  | Create mobject
  | FadeOut "mobject list"
  | Transform mobject mobject

datatype event =
    Add "mobject list"
  | Play "anim list" "real option"
  | Wait real

record scene =
  events :: "event list"

text \<open>\<open>self.play(*animations, run_time=...)\<close> and \<open>self.wait(t)\<close>.\<close>

definition play :: "anim list \<Rightarrow> real option \<Rightarrow> 'a scene_scheme \<Rightarrow> 'a scene_scheme" where
  "play anims run_time s = events_update (\<lambda>es. es @ [Play anims run_time]) s"

definition wait :: "real \<Rightarrow> 'a scene_scheme \<Rightarrow> 'a scene_scheme" where
  "wait t s = events_update (\<lambda>es. es @ [Wait t]) s"

text \<open>\<open>self.add(*mobjects)\<close>.\<close>

definition scene_add :: "mobject list \<Rightarrow> 'a scene_scheme \<Rightarrow> 'a scene_scheme" where
  "scene_add ms s = events_update (\<lambda>es. es @ [Add ms]) s"

text \<open>Python's truth value of an optional label: \<open>None\<close> and the empty string are false.\<close>

definition truthy :: "string option \<Rightarrow> bool" where
  "truthy label_text = (case label_text of None \<Rightarrow> False | Some t \<Rightarrow> t \<noteq> [])"

definition text_of_label :: "string option \<Rightarrow> string" where
  "text_of_label label_text = (case label_text of None \<Rightarrow> [] | Some t \<Rightarrow> t)"

text \<open>\<open>hasattr(arrow, 'tip') and arrow.tip is not None\<close>: the engine gives every arrow a tip.\<close>

definition has_tip :: "mobject \<Rightarrow> bool" where
  "has_tip m = (case shape m of Arrow _ _ _ _ _ _ \<Rightarrow> True | _ \<Rightarrow> False)"

section \<open>Scene BuildBasicBlocks\<close>

text \<open>The title is the UTF-8 encoding of the script's (Chinese) string literal.\<close>

definition BuildBasicBlocks_title_text :: string where
  "BuildBasicBlocks_title_text = [CHR 0xE6, CHR 0xAD, CHR 0xA5, CHR 0xE9, CHR 0xAA, CHR 0xA4] @ '' 4: '' @ [CHR 0xE6, CHR 0x9E, CHR 0x84, CHR 0xE5, CHR 0xBB, CHR 0xBA, CHR 0xE5, CHR 0x9F, CHR 0xBA, CHR 0xE6, CHR 0x9C, CHR 0xAC, CHR 0xE5, CHR 0x9D, CHR 0x97]"

definition BuildBasicBlocks_construct :: "scene \<Rightarrow> nat \<Rightarrow> scene \<times> nat" where
  "BuildBasicBlocks_construct s h =
     (let (title, h) = new_Text BuildBasicBlocks_title_text 36 BLUE NORMAL [] h;
          title = call (ToEdge UP None) title;
          (blocks, h) = new_VGroup [] h;
          (block0, h) = BuildBasicBlocks_create_block_box ''entry_block''
                          [''int grade = 0;'', ''int score = 70;''] GREEN h;
          block0 = call (MoveTo (PMul UP 2.5)) block0;
          blocks = add blocks block0;
          (block1, h) = BuildBasicBlocks_create_block_box ''block_1'' [''if (score >= 90)''] ORANGE h;
          block1 = call (MoveTo (PMul UP 0.8)) block1;
          blocks = add blocks block1;
          (block2, h) = BuildBasicBlocks_create_block_box ''block_2'' [''grade = 1;''] YELLOW h;
          block2 = call (MoveTo (PAdd (PMul LEFT 2.5) (PMul DOWN 0.5))) block2;
          blocks = add blocks block2;
          (block3, h) = BuildBasicBlocks_create_block_box ''block_3'' [''grade = 2;''] YELLOW h;
          block3 = call (MoveTo (PAdd (PMul RIGHT 2.5) (PMul DOWN 0.5))) block3;
          blocks = add blocks block3;
          (block4, h) = BuildBasicBlocks_create_block_box ''block_4'' [''return grade;''] PURPLE h;
          block4 = call (MoveTo (PMul DOWN 1.8)) block4;
          blocks = add blocks block4;
          (block5, h) = BuildBasicBlocks_create_block_box ''exit_block'' [] RED h;
          block5 = call (MoveTo (PMul DOWN 3.2)) block5;
          blocks = add blocks block5;
          blocks = call (Scale 0.6) blocks
      in (scene_add (title # submobjects blocks) s, h))"

section \<open>Scene FinalCFG\<close>

definition FinalCFG_connections :: "(int \<times> int \<times> string option) list" where
  "FinalCFG_connections =
     [(0, 1, None),
      (1, 2, Some ''true''),
      (1, 3, Some ''false''),
      (2, 4, None),
      (3, 4, None),
      (4, 5, None)]"

text \<open>The body of the loop over \<open>connections\<close>: one connector, possibly with its label.\<close>

definition FinalCFG_arrow ::
  "mobject \<Rightarrow> int \<times> int \<times> string option \<Rightarrow> nat \<Rightarrow> (mobject \<times> nat) option" where
  "FinalCFG_arrow blocks conn h =
     (case conn of (from_idx, to_idx, label_text) \<Rightarrow>
      do {
        let ARROW_COLOR = BLUE;
        let ARROW_STROKE_WIDTH = (3::real);
        let ARROW_BUFF = (0.2::real);
        let ARROW_OPACITY = (1.0::real);
        let ARROW_TIP_LENGTH = (0.25::real);
        let LABEL_FONT_SIZE = (16::real);
        let OFFSET_DISTANCE = (0.15::real);
        from_block \<leftarrow> getitem (submobjects blocks) from_idx;
        to_block \<leftarrow> getitem (submobjects blocks) to_idx;
        let start =
          (if from_idx = 0 then PAdd (get_bottom from_block) (PMul DOWN OFFSET_DISTANCE)
           else if from_idx = 1 then
             (if to_idx = 2 then PAdd (get_left from_block) (PMul LEFT OFFSET_DISTANCE)
              else PAdd (get_right from_block) (PMul RIGHT OFFSET_DISTANCE))
           else if from_idx \<in> set [2, 3] then PAdd (get_bottom from_block) (PMul DOWN OFFSET_DISTANCE)
           else PAdd (get_bottom from_block) (PMul DOWN OFFSET_DISTANCE));
        let end =
          (if to_idx = 1 then PAdd (get_top to_block) (PMul UP OFFSET_DISTANCE)
           else if to_idx \<in> set [2, 3] then PAdd (get_top to_block) (PMul UP OFFSET_DISTANCE)
           else if to_idx = 4 then PAdd (get_top to_block) (PMul UP OFFSET_DISTANCE)
           else PAdd (get_top to_block) (PMul UP OFFSET_DISTANCE));
        let (arrow, h) = new_Arrow start end ARROW_COLOR ARROW_BUFF ARROW_STROKE_WIDTH ARROW_TIP_LENGTH h;
        let arrow = call (SetStroke ARROW_STROKE_WIDTH ARROW_OPACITY) arrow;
        let arrow = call (SetColor ARROW_COLOR) arrow;
        let arrow =
          (if has_tip arrow then
             call (TipSetFill ARROW_COLOR ARROW_OPACITY)
               (call (TipSetStroke ARROW_STROKE_WIDTH ARROW_OPACITY) arrow)
           else arrow);
        (if truthy label_text then
           (let (label, h) = new_Text (text_of_label label_text) LABEL_FONT_SIZE ARROW_COLOR BOLD [] h;
                label = call (SetOpacity ARROW_OPACITY) label;
                label = call (MoveTo (get_center arrow)) label;
                label = (if to_idx = 2 then call (Shift (PMul LEFT 0.3)) label
                         else call (Shift (PMul RIGHT 0.3)) label);
                (arrow_group, h) = new_VGroup [arrow, label] h
            in Some (arrow_group, h))
         else Some (arrow, h))
      })"

fun FinalCFG_arrows_loop ::
  "(int \<times> int \<times> string option) list \<Rightarrow> mobject \<Rightarrow> mobject \<Rightarrow> nat \<Rightarrow> (mobject \<times> nat) option" where
  "FinalCFG_arrows_loop [] blocks arrows h = Some (arrows, h)"
| "FinalCFG_arrows_loop (conn # conns) blocks arrows h =
     do {
       (arrow_group, h) \<leftarrow> FinalCFG_arrow blocks conn h;
       FinalCFG_arrows_loop conns blocks (add arrows arrow_group) h
     }"

text \<open>\<open>construct\<close> up to the two groups it hands to the engine.\<close>

definition FinalCFG_build :: "nat \<Rightarrow> (mobject \<times> mobject \<times> nat) option" where
  "FinalCFG_build h =
     (let (blocks, h) = new_VGroup [] h;
          (block0, h) = FinalCFG_create_block_box ''entry_block''
                          [''int grade = 0;'', ''int score = 70;''] GREEN h;
          block0 = call (MoveTo (PMul UP 2.8)) block0;
          blocks = add blocks block0;
          (block1, h) = FinalCFG_create_block_box ''block_1'' [''if (score >= 90)''] ORANGE h;
          block1 = call (MoveTo (PMul UP 1.0)) block1;
          blocks = add blocks block1;
          (block2, h) = FinalCFG_create_block_box ''block_2'' [''grade = 1;''] YELLOW h;
          block2 = call (MoveTo (PAdd (PMul LEFT 3.0) (PMul DOWN 0.3))) block2;
          blocks = add blocks block2;
          (block3, h) = FinalCFG_create_block_box ''block_3'' [''grade = 2;''] YELLOW h;
          block3 = call (MoveTo (PAdd (PMul RIGHT 3.0) (PMul DOWN 0.3))) block3;
          blocks = add blocks block3;
          (block4, h) = FinalCFG_create_block_box ''block_4'' [''return grade;''] PURPLE h;
          block4 = call (MoveTo (PMul DOWN 1.6)) block4;
          blocks = add blocks block4;
          (block5, h) = FinalCFG_create_block_box ''exit_block'' [] RED h;
          block5 = call (MoveTo (PMul DOWN 3.0)) block5;
          blocks = add blocks block5;
          blocks = call (Scale 0.65) blocks;
          (arrows, h) = new_VGroup [] h
      in do {
        (arrows, h) \<leftarrow> FinalCFG_arrows_loop FinalCFG_connections blocks arrows h;
        Some (blocks, arrows, h)
      })"

definition FinalCFG_construct :: "scene \<Rightarrow> nat \<Rightarrow> (scene \<times> nat) option" where
  "FinalCFG_construct s h =
     do {
       (blocks, arrows, h) \<leftarrow> FinalCFG_build h;
       Some (scene_add (submobjects blocks @ submobjects arrows) s, h)
     }"


section \<open>Scene BlockMerging\<close>

text \<open>The scene object: the events handed to the engine and the attributes the methods
  set on \<open>self\<close> (\<open>None\<close>: not set yet; reading such an attribute raises).\<close>

record BlockMerging_scene = scene +
  bm_title :: "mobject option"
  bm_blocks :: "mobject option"
  bm_arrows :: "mobject option"
  bm_rule_text :: "mobject option"
  bm_highlight_boxes :: "mobject option"
  bm_annotations :: "mobject option"
  bm_merged_block :: "mobject option"

definition BlockMerging_init :: BlockMerging_scene where
  "BlockMerging_init =
     \<lparr>events = [], bm_title = None, bm_blocks = None, bm_arrows = None, bm_rule_text = None,
      bm_highlight_boxes = None, bm_annotations = None, bm_merged_block = None\<rparr>"

definition BlockMerging_create_arrow ::
  "mobject \<Rightarrow> mobject \<Rightarrow> string option \<Rightarrow> int \<Rightarrow> int \<Rightarrow> nat \<Rightarrow> mobject \<times> nat" where
  "BlockMerging_create_arrow from_block to_block label_text from_idx to_idx h =
     (let ARROW_COLOR = BLUE;
          ARROW_STROKE_WIDTH = (2.5::real);
          ARROW_BUFF = (0.15::real);
          ARROW_OPACITY = (1.0::real);
          ARROW_TIP_LENGTH = (0.2::real);
          OFFSET_DISTANCE = (0.1::real);
          start =
            (if from_idx = 0 then PAdd (get_bottom from_block) (PMul DOWN OFFSET_DISTANCE)
             else if from_idx = 1 \<or> from_idx = - 1 then
               PAdd (get_bottom from_block) (PMul DOWN OFFSET_DISTANCE)
             else if from_idx = 4 then
               (if to_idx = 5 then PAdd (get_left from_block) (PMul LEFT OFFSET_DISTANCE)
                else PAdd (get_right from_block) (PMul RIGHT OFFSET_DISTANCE))
             else if from_idx \<in> set [5, 6] then
               PAdd (get_bottom from_block) (PMul DOWN OFFSET_DISTANCE)
             else PAdd (get_bottom from_block) (PMul DOWN OFFSET_DISTANCE));
          end =
            (if to_idx = 4 then PAdd (get_top to_block) (PMul UP OFFSET_DISTANCE)
             else if to_idx \<in> set [5, 6] then PAdd (get_top to_block) (PMul UP OFFSET_DISTANCE)
             else if to_idx = 7 then PAdd (get_top to_block) (PMul UP OFFSET_DISTANCE)
             else if to_idx = 8 then PAdd (get_top to_block) (PMul UP OFFSET_DISTANCE)
             else PAdd (get_top to_block) (PMul UP OFFSET_DISTANCE));
          (arrow, h) = new_Arrow start end ARROW_COLOR ARROW_BUFF ARROW_STROKE_WIDTH ARROW_TIP_LENGTH h;
          arrow = call (SetStroke ARROW_STROKE_WIDTH ARROW_OPACITY) arrow;
          arrow = call (SetColor ARROW_COLOR) arrow
      in if truthy label_text then
           (let (label, h) = new_Text (text_of_label label_text) 14 ARROW_COLOR BOLD [] h;
                label = call (SetOpacity ARROW_OPACITY) label;
                label = call (MoveTo (get_center arrow)) label;
                label = (if to_idx = 5 then call (Shift (PMul LEFT 0.25)) label
                         else call (Shift (PMul RIGHT 0.25)) label)
            in new_VGroup [arrow, label] h)
         else (arrow, h))"

text \<open>The literal connection list of \<open>show_initial_blocks\<close>: (source index, destination
  index, label).\<close>

definition BlockMerging_connections :: "(int \<times> int \<times> string option) list" where
  "BlockMerging_connections =
     [(0, 1, None),
      (1, 2, None),
      (2, 3, None),
      (3, 4, None),
      (4, 5, Some ''true''),
      (4, 6, Some ''false''),
      (5, 7, None),
      (6, 7, None),
      (7, 8, None)]"

text \<open>The loop \<open>for from_idx, to_idx, label in connections\<close>.\<close>

fun BlockMerging_arrows_loop ::
  "(int \<times> int \<times> string option) list \<Rightarrow> mobject \<Rightarrow> mobject \<Rightarrow> nat \<Rightarrow> (mobject \<times> nat) option" where
  "BlockMerging_arrows_loop [] blocks arrows h = Some (arrows, h)"
| "BlockMerging_arrows_loop ((from_idx, to_idx, label) # conns) blocks arrows h =
     do {
       from_block \<leftarrow> getitem (submobjects blocks) from_idx;
       to_block \<leftarrow> getitem (submobjects blocks) to_idx;
       let (arrow, h) = BlockMerging_create_arrow from_block to_block label from_idx to_idx h;
       BlockMerging_arrows_loop conns blocks (add arrows arrow) h
     }"

definition BlockMerging_title1_text :: string where
  "BlockMerging_title1_text = [CHR 0xE6, CHR 0xAD, CHR 0xA5, CHR 0xE9, CHR 0xAA, CHR 0xA4] @ '' 1: '' @ [CHR 0xE5, CHR 0x88, CHR 0x9D, CHR 0xE5, CHR 0xA7, CHR 0x8B, CHR 0xE5, CHR 0x9F, CHR 0xBA, CHR 0xE6, CHR 0x9C, CHR 0xAC, CHR 0xE5, CHR 0x9D, CHR 0x97]"

definition BlockMerging_show_initial_blocks ::
  "BlockMerging_scene \<Rightarrow> nat \<Rightarrow> (BlockMerging_scene \<times> nat) option" where
  "BlockMerging_show_initial_blocks s h =
     (let (title, h) = new_Text BlockMerging_title1_text 36 BLUE NORMAL [] h;
          title = call (ToCorner UL (Some 0.5)) title;
          (blocks, h) = new_VGroup [] h;
          (entry, h) = BlockMerging_create_block_box ''entry_block'' [''int x = 0;'', ''int y = 1;''] GREEN h;
          entry = call (MoveTo (PAdd (PMul UP 3.0) (PMul LEFT 4.0))) entry;
          blocks = add blocks entry;
          (block1, h) = BlockMerging_create_block_box ''block_1'' [''x = x + 1;''] YELLOW h;
          block1 = call (MoveTo (PAdd (PMul UP 3.0) (PMul LEFT 1.5))) block1;
          blocks = add blocks block1;
          (block2, h) = BlockMerging_create_block_box ''block_2'' [''y = y * 2;''] YELLOW h;
          block2 = call (MoveTo (PAdd (PMul UP 3.0) (PMul RIGHT 1.0))) block2;
          blocks = add blocks block2;
          (block3, h) = BlockMerging_create_block_box ''block_3'' [''int z = x + y;''] YELLOW h;
          block3 = call (MoveTo (PAdd (PMul UP 3.0) (PMul RIGHT 3.5))) block3;
          blocks = add blocks block3;
          (condition, h) = BlockMerging_create_block_box ''block_4'' [''if (z > 10)''] ORANGE h;
          condition = call (MoveTo (PMul UP 0.5)) condition;
          blocks = add blocks condition;
          (then_block, h) = BlockMerging_create_block_box ''block_5'' [''x = 100;''] YELLOW h;
          then_block = call (MoveTo (PAdd (PMul LEFT 2.5) (PMul DOWN 1.5))) then_block;
          blocks = add blocks then_block;
          (else_block, h) = BlockMerging_create_block_box ''block_6'' [''x = 200;''] YELLOW h;
          else_block = call (MoveTo (PAdd (PMul RIGHT 2.5) (PMul DOWN 1.5))) else_block;
          blocks = add blocks else_block;
          (merge, h) = BlockMerging_create_block_box ''block_7'' [''return x;''] PURPLE h;
          merge = call (MoveTo (PMul DOWN 3.0)) merge;
          blocks = add blocks merge;
          (exit_block, h) = BlockMerging_create_block_box ''exit_block'' [] RED h;
          exit_block = call (MoveTo (PMul DOWN 4.5)) exit_block;
          blocks = add blocks exit_block;
          blocks = call (Scale 0.5) blocks;
          (arrows, h) = new_VGroup [] h
      in do {
        (arrows, h) \<leftarrow> BlockMerging_arrows_loop BlockMerging_connections blocks arrows h;
        let s = play [Write title] None s;
        let s = play (map Create (submobjects blocks)) (Some 2) s;
        let s = play (map Create (submobjects arrows)) (Some 2) s;
        Some (s\<lparr>bm_title := Some title, bm_blocks := Some blocks, bm_arrows := Some arrows\<rparr>, h)
      })"

definition BlockMerging_title2_text :: string where
  "BlockMerging_title2_text = [CHR 0xE6, CHR 0xAD, CHR 0xA5, CHR 0xE9, CHR 0xAA, CHR 0xA4] @ '' 2: '' @ [CHR 0xE8, CHR 0xAF, CHR 0x86, CHR 0xE5, CHR 0x88, CHR 0xAB, CHR 0xE5, CHR 0x8F, CHR 0xAF, CHR 0xE5, CHR 0x90, CHR 0x88, CHR 0xE5, CHR 0xB9, CHR 0xB6, CHR 0xE7, CHR 0x9A, CHR 0x84, CHR 0xE5, CHR 0x9D, CHR 0x97]"

definition BlockMerging_rule0_text :: string where
  "BlockMerging_rule0_text = [CHR 0xE5, CHR 0x90, CHR 0x88, CHR 0xE5, CHR 0xB9, CHR 0xB6, CHR 0xE8, CHR 0xA7, CHR 0x84, CHR 0xE5, CHR 0x88, CHR 0x99, CHR 0xEF, CHR 0xBC, CHR 0x9A]"

definition BlockMerging_rule1_text :: string where
  "BlockMerging_rule1_text = [CHR 0xE2, CHR 0x80, CHR 0xA2] @ '' '' @ [CHR 0xE5, CHR 0x9D, CHR 0x97] @ ''A'' @ [CHR 0xE5, CHR 0x8F, CHR 0xAA, CHR 0xE6, CHR 0x9C, CHR 0x89, CHR 0xE4, CHR 0xB8, CHR 0x80, CHR 0xE4, CHR 0xB8, CHR 0xAA, CHR 0xE5, CHR 0x90, CHR 0x8E, CHR 0xE7, CHR 0xBB, CHR 0xA7, CHR 0xE5, CHR 0x9D, CHR 0x97] @ ''B''"

definition BlockMerging_rule2_text :: string where
  "BlockMerging_rule2_text = [CHR 0xE2, CHR 0x80, CHR 0xA2] @ '' '' @ [CHR 0xE5, CHR 0x9D, CHR 0x97] @ ''B'' @ [CHR 0xE5, CHR 0x8F, CHR 0xAA, CHR 0xE6, CHR 0x9C, CHR 0x89, CHR 0xE4, CHR 0xB8, CHR 0x80, CHR 0xE4, CHR 0xB8, CHR 0xAA, CHR 0xE5, CHR 0x89, CHR 0x8D, CHR 0xE9, CHR 0xA9, CHR 0xB1, CHR 0xE5, CHR 0x9D, CHR 0x97] @ ''A''"

definition BlockMerging_rule3_text :: string where
  "BlockMerging_rule3_text = [CHR 0xE2, CHR 0x80, CHR 0xA2] @ '' '' @ [CHR 0xE6, CHR 0xBB, CHR 0xA1, CHR 0xE8, CHR 0xB6, CHR 0xB3, CHR 0xE6, CHR 0x9D, CHR 0xA1, CHR 0xE4, CHR 0xBB, CHR 0xB6, CHR 0xE5, CHR 0x8D, CHR 0xB3, CHR 0xE5, CHR 0x8F, CHR 0xAF, CHR 0xE5, CHR 0x90, CHR 0x88, CHR 0xE5, CHR 0xB9, CHR 0xB6]"

definition BlockMerging_annotation_text :: string where
  "BlockMerging_annotation_text = [CHR 0xE5, CHR 0x8F, CHR 0xAF, CHR 0xE5, CHR 0x90, CHR 0x88, CHR 0xE5, CHR 0xB9, CHR 0xB6]"

text \<open>The two loops \<open>for block in mergeable_blocks\<close>.\<close>

fun highlight_loop :: "mobject list \<Rightarrow> mobject \<Rightarrow> nat \<Rightarrow> mobject \<times> nat" where
  "highlight_loop [] highlight_boxes h = (highlight_boxes, h)"
| "highlight_loop (block # bs) highlight_boxes h =
     (let (highlight, h) = new_SurroundingRectangle block YELLOW 0.1 None 4 h
      in highlight_loop bs (add highlight_boxes highlight) h)"

fun annotation_loop :: "mobject list \<Rightarrow> mobject \<Rightarrow> nat \<Rightarrow> mobject \<times> nat" where
  "annotation_loop [] annotations h = (annotations, h)"
| "annotation_loop (block # bs) annotations h =
     (let (annotation, h) = new_Text BlockMerging_annotation_text 16 YELLOW BOLD [] h;
          annotation = call (NextTo block DOWN 0.3) annotation
      in annotation_loop bs (add annotations annotation) h)"

definition BlockMerging_identify_mergeable_blocks ::
  "BlockMerging_scene \<Rightarrow> nat \<Rightarrow> (BlockMerging_scene \<times> nat) option" where
  "BlockMerging_identify_mergeable_blocks s h =
     (let (new_title, h) = new_Text BlockMerging_title2_text 36 BLUE NORMAL [] h;
          new_title = call (ToCorner UL (Some 0.5)) new_title
      in do {
        blocks \<leftarrow> bm_blocks s;
        b1 \<leftarrow> getitem (submobjects blocks) 1;
        b2 \<leftarrow> getitem (submobjects blocks) 2;
        b3 \<leftarrow> getitem (submobjects blocks) 3;
        let mergeable_blocks = [b1, b2, b3];
        let (r0, h) = new_Text BlockMerging_rule0_text 24 GREEN NORMAL [] h;
        let (r1, h) = new_Text BlockMerging_rule1_text 20 WHITE NORMAL [] h;
        let (r2, h) = new_Text BlockMerging_rule2_text 20 WHITE NORMAL [] h;
        let (r3, h) = new_Text BlockMerging_rule3_text 20 WHITE NORMAL [] h;
        let (rule_text, h) = new_VGroup [r0, r1, r2, r3] h;
        let rule_text = call (Arrange DOWN LEFT 0.3) rule_text;
        let rule_text = call (Scale 0.7) rule_text;
        let rule_text = call (ToEdge RIGHT (Some 0.5)) rule_text;
        title \<leftarrow> bm_title s;
        let s = play [Transform title new_title] None s;
        let s = play [Write rule_text] None s;
        let (highlight_boxes, h) = new_VGroup [] h;
        let (highlight_boxes, h) = highlight_loop mergeable_blocks highlight_boxes h;
        let s = play (map Create (submobjects highlight_boxes)) (Some 1.5) s;
        let (annotations, h) = new_VGroup [] h;
        let (annotations, h) = annotation_loop mergeable_blocks annotations h;
        let s = play [Write annotations] None s;
        Some (s\<lparr>bm_rule_text := Some rule_text, bm_highlight_boxes := Some highlight_boxes,
                 bm_annotations := Some annotations\<rparr>, h)
      })"

definition BlockMerging_title3_text :: string where
  "BlockMerging_title3_text = [CHR 0xE6, CHR 0xAD, CHR 0xA5, CHR 0xE9, CHR 0xAA, CHR 0xA4] @ '' 3: '' @ [CHR 0xE6, CHR 0x89, CHR 0xA7, CHR 0xE8, CHR 0xA1, CHR 0x8C, CHR 0xE5, CHR 0x9D, CHR 0x97, CHR 0xE5, CHR 0x90, CHR 0x88, CHR 0xE5, CHR 0xB9, CHR 0xB6]"

definition BlockMerging_perform_merging ::
  "BlockMerging_scene \<Rightarrow> nat \<Rightarrow> (BlockMerging_scene \<times> nat) option" where
  "BlockMerging_perform_merging s h =
     (let (new_title, h) = new_Text BlockMerging_title3_text 36 BLUE NORMAL [] h;
          new_title = call (ToCorner UL (Some 0.5)) new_title
      in do {
        title \<leftarrow> bm_title s;
        let s = play [Transform title new_title] None s;
        rule_text \<leftarrow> bm_rule_text s;
        highlight_boxes \<leftarrow> bm_highlight_boxes s;
        annotations \<leftarrow> bm_annotations s;
        let s = play [FadeOut [rule_text], FadeOut [highlight_boxes], FadeOut [annotations]] None s;
        let (merged_block, h) = BlockMerging_create_block_box ''merged_block''
              [''x = x + 1;'', ''y = y * 2;'', ''int z = x + y;''] GREEN h;
        let merged_block = call (MoveTo (PMul UP 3.0)) merged_block;
        let merged_block = call (Scale 0.5) merged_block;
        blocks \<leftarrow> bm_blocks s;
        arrows \<leftarrow> bm_arrows s;
        b1 \<leftarrow> getitem (submobjects blocks) 1;
        b2 \<leftarrow> getitem (submobjects blocks) 2;
        b3 \<leftarrow> getitem (submobjects blocks) 3;
        let blocks_to_remove = [b1, b2, b3];
        a0 \<leftarrow> getitem (submobjects arrows) 0;
        a1 \<leftarrow> getitem (submobjects arrows) 1;
        a2 \<leftarrow> getitem (submobjects arrows) 2;
        a3 \<leftarrow> getitem (submobjects arrows) 3;
        let arrows_to_remove = [a0, a1, a2, a3];
        let s = play (map (\<lambda>block. FadeOut [block]) blocks_to_remove
                      @ map (\<lambda>arrow. FadeOut [arrow]) arrows_to_remove) (Some 1) s;
        let s = play [Create merged_block] (Some 1) s;
        b0 \<leftarrow> getitem (submobjects blocks) 0;
        let (new_arrow1, h) = BlockMerging_create_arrow b0 merged_block None 0 (- 1) h;
        b4 \<leftarrow> getitem (submobjects blocks) 4;
        let (new_arrow2, h) = BlockMerging_create_arrow merged_block b4 None (- 1) 4 h;
        let s = play [Create new_arrow1, Create new_arrow2] (Some 1) s;
        b0 \<leftarrow> getitem (submobjects blocks) 0;
        b4 \<leftarrow> getitem (submobjects blocks) 4;
        b5 \<leftarrow> getitem (submobjects blocks) 5;
        b6 \<leftarrow> getitem (submobjects blocks) 6;
        b7 \<leftarrow> getitem (submobjects blocks) 7;
        b8 \<leftarrow> getitem (submobjects blocks) 8;
        let (new_blocks, h) = new_VGroup [b0, merged_block, b4, b5, b6, b7, b8] h;
        a4 \<leftarrow> getitem (submobjects arrows) 4;
        a5 \<leftarrow> getitem (submobjects arrows) 5;
        a6 \<leftarrow> getitem (submobjects arrows) 6;
        a7 \<leftarrow> getitem (submobjects arrows) 7;
        a8 \<leftarrow> getitem (submobjects arrows) 8;
        let (new_arrows, h) = new_VGroup [new_arrow1, new_arrow2, a4, a5, a6, a7, a8] h;
        Some (s\<lparr>bm_blocks := Some new_blocks, bm_arrows := Some new_arrows,
                 bm_merged_block := Some merged_block\<rparr>, h)
      })"

text \<open>\<open>construct\<close> up to the end of its third stage. The run keeps the scene as
  \<open>show_initial_blocks\<close> leaves it, the next free identity when \<open>perform_merging\<close> starts,
  and the scene as \<open>perform_merging\<close> leaves it.\<close>

definition BlockMerging_run :: "(BlockMerging_scene \<times> nat \<times> BlockMerging_scene) option" where
  "BlockMerging_run =
     do {
       (s1, h) \<leftarrow> BlockMerging_show_initial_blocks BlockMerging_init 0;
       (s2, h2) \<leftarrow> BlockMerging_identify_mergeable_blocks (wait 2 s1) h;
       (s3, h3) \<leftarrow> BlockMerging_perform_merging (wait 2 s2) h2;
       Some (s1, h2, s3)
     }"


section \<open>Scene ASTGeneration\<close>

subsection \<open>Python string operations used by the scene\<close>

text \<open>The white space of \<open>str.strip\<close>, within ASCII (the scene's source text is ASCII).\<close>

definition is_space :: "char \<Rightarrow> bool" where
  "is_space c = (c \<in> set [CHR '' '', CHR 0x09, CHR 0x0A, CHR 0x0B, CHR 0x0C, CHR 0x0D,
                            CHR 0x1C, CHR 0x1D, CHR 0x1E, CHR 0x1F])"

definition lstrip :: "string \<Rightarrow> string" where
  "lstrip s = dropWhile is_space s"

definition strip :: "string \<Rightarrow> string" where
  "strip s = rev (dropWhile is_space (rev (dropWhile is_space s)))"

text \<open>\<open>s.split(sep)\<close> for a one-character separator.\<close>

fun split :: "char \<Rightarrow> string \<Rightarrow> string list" where
  "split sep [] = [[]]"
| "split sep (c # cs) =
     (if c = sep then [] # split sep cs
      else (case split sep cs of [] \<Rightarrow> [[c]] | w # ws \<Rightarrow> (c # w) # ws))"

text \<open>\<open>s * n\<close>: the empty string when \<open>n\<close> is not positive.\<close>

definition str_mul :: "string \<Rightarrow> int \<Rightarrow> string" where
  "str_mul s n = concat (replicate (nat n) s)"

text \<open>\<open>min(xs, default=d)\<close>.\<close>

definition min_default :: "int list \<Rightarrow> int \<Rightarrow> int" where
  "min_default xs d = (case xs of [] \<Rightarrow> d | y # ys \<Rightarrow> fold min ys y)"

subsection \<open>The scene\<close>

text \<open>
  An object held by two groups is one object: a call made through one group shows through
  the other. \<open>refresh updated m\<close> brings \<open>m\<close> and its family up to date with the objects
  \<open>updated\<close> (matched by identity).
\<close>

fun refresh :: "mobject list \<Rightarrow> mobject \<Rightarrow> mobject" where
  "refresh updated (Mobject i sh subs hist) =
     (case find (\<lambda>u. oid u = i) updated of
        Some u \<Rightarrow> u
      | None \<Rightarrow> Mobject i sh (map (refresh updated) subs) hist)"

record ASTGeneration_scene = scene +
  ast_title :: "mobject option"
  ast_code_group :: "mobject option"
  ast_code_box :: "mobject option"
  ast_token_groups :: "mobject list option"
  ast_rules :: "mobject option"
  ast_connections :: "mobject list option"
  ast_nodes :: "mobject list option"
  ast_arrows :: "mobject list option"

definition ASTGeneration_init :: ASTGeneration_scene where
  "ASTGeneration_init =
     \<lparr>events = [], ast_title = None, ast_code_group = None, ast_code_box = None,
      ast_token_groups = None, ast_rules = None, ast_connections = None, ast_nodes = None,
      ast_arrows = None\<rparr>"

text \<open>The literal source program of \<open>construct\<close> (ten lines).\<close>

definition source_code :: string where
  "source_code =
      ''int checkGrade() {'' @ [CHR 0x0A] @
      ''    int grade = 0;'' @ [CHR 0x0A] @
      ''    int score = 70;'' @ [CHR 0x0A] @
      ''    if (score >= 90) {'' @ [CHR 0x0A] @
      ''        grade = 1;'' @ [CHR 0x0A] @
      ''    } else {'' @ [CHR 0x0A] @
      ''        grade = 2;'' @ [CHR 0x0A] @
      ''    }'' @ [CHR 0x0A] @
      ''    return grade;'' @ [CHR 0x0A] @
      ''}''"

definition ASTGeneration_title1_text :: string where
  "ASTGeneration_title1_text = [CHR 0xE6, CHR 0xAD, CHR 0xA5, CHR 0xE9, CHR 0xAA, CHR 0xA4] @ '' 1: '' @ [CHR 0xE6, CHR 0xBA, CHR 0x90, CHR 0xE4, CHR 0xBB, CHR 0xA3, CHR 0xE7, CHR 0xA0, CHR 0x81]"

text \<open>The loop \<open>for line in code_lines\<close> of \<open>show_source_code\<close>.\<close>

fun code_lines_loop :: "string list \<Rightarrow> int \<Rightarrow> mobject \<Rightarrow> nat \<Rightarrow> mobject \<times> nat" where
  "code_lines_loop [] min_indent code_group h = (code_group, h)"
| "code_lines_loop (line # lines) min_indent code_group h =
     (let (line_text, h) =
            (if strip line = [] then new_Text [] 22 WHITE NORMAL ''monospace'' h
             else
               (let current_indent = int (length line) - int (length (lstrip line));
                    relative_indent = current_indent - min_indent;
                    indent_spaces = str_mul ''    '' (relative_indent div 4);
                    line_content = lstrip line;
                    formatted_line = indent_spaces @ line_content
                in new_Text formatted_line 22 WHITE NORMAL ''monospace'' h))
      in code_lines_loop lines min_indent (add code_group line_text) h)"

definition ASTGeneration_show_source_code ::
  "string \<Rightarrow> ASTGeneration_scene \<Rightarrow> nat \<Rightarrow> (ASTGeneration_scene \<times> nat) option" where
  "ASTGeneration_show_source_code code s h =
     (let (title, h) = new_Text ASTGeneration_title1_text 36 BLUE NORMAL [] h;
          title = call (ToCorner UL (Some 0.5)) title;
          code_lines = split (CHR 0x0A) (strip code);
          (code_group, h) = new_VGroup [] h;
          min_indent = min_default
            (map (\<lambda>line. int (length line) - int (length (lstrip line)))
               (filter (\<lambda>line. strip line \<noteq> []) code_lines)) 0;
          (code_group, h) = code_lines_loop code_lines min_indent code_group h;
          code_group = call (Arrange DOWN LEFT 0.25) code_group;
          code_group = call (Scale 0.8) code_group;
          code_group = call (MoveTo (PAdd ORIGIN (PMul DOWN 0.3))) code_group;
          (code_box, h) = new_SurroundingRectangle code_group BLUE 0.3 (Some 0.2) 2 h;
          s = play [Write title] None s;
          s = play [Create code_box, Write code_group] (Some 2) s
      in Some (s\<lparr>ast_title := Some title, ast_code_group := Some code_group,
                  ast_code_box := Some code_box\<rparr>, h))"

text \<open>The token categories are the script's (Chinese) string literals, UTF-8 encoded:
  keyword, identifier, delimiter, operator and literal, in this order.\<close>

definition cat_keyword :: string where
  "cat_keyword = [CHR 0xE5, CHR 0x85, CHR 0xB3, CHR 0xE9, CHR 0x94, CHR 0xAE, CHR 0xE5, CHR 0xAD, CHR 0x97]"

definition cat_identifier :: string where
  "cat_identifier = [CHR 0xE6, CHR 0xA0, CHR 0x87, CHR 0xE8, CHR 0xAF, CHR 0x86, CHR 0xE7, CHR 0xAC, CHR 0xA6]"

definition cat_delimiter :: string where
  "cat_delimiter = [CHR 0xE5, CHR 0x88, CHR 0x86, CHR 0xE9, CHR 0x9A, CHR 0x94, CHR 0xE7, CHR 0xAC, CHR 0xA6]"

definition cat_operator :: string where
  "cat_operator = [CHR 0xE8, CHR 0xBF, CHR 0x90, CHR 0xE7, CHR 0xAE, CHR 0x97, CHR 0xE7, CHR 0xAC, CHR 0xA6]"

definition cat_literal :: string where
  "cat_literal = [CHR 0xE5, CHR 0xAD, CHR 0x97, CHR 0xE9, CHR 0x9D, CHR 0xA2, CHR 0xE9, CHR 0x87, CHR 0x8F]"

text \<open>The literal token list of \<open>show_tokenization\<close>.\<close>

definition tokens :: "(string \<times> string) list" where
  "tokens =
     [(''int'', cat_keyword),
      (''checkGrade'', cat_identifier),
      (''('', cat_delimiter),
      ('')'', cat_delimiter),
      (''{'', cat_delimiter),
      (''int'', cat_keyword),
      (''grade'', cat_identifier),
      (''='', cat_operator),
      (''0'', cat_literal),
      ('';'', cat_delimiter),
      (''if'', cat_keyword),
      (''('', cat_delimiter),
      (''score'', cat_identifier),
      (''>='', cat_operator),
      (''90'', cat_literal),
      ('')'', cat_delimiter),
      (''{'', cat_delimiter),
      (''grade'', cat_identifier),
      (''='', cat_operator),
      (''1'', cat_literal),
      ('';'', cat_delimiter),
      (''}'', cat_delimiter),
      (''else'', cat_keyword),
      (''{'', cat_delimiter),
      (''grade'', cat_identifier),
      (''='', cat_operator),
      (''2'', cat_literal),
      ('';'', cat_delimiter),
      (''}'', cat_delimiter),
      (''return'', cat_keyword),
      (''grade'', cat_identifier),
      ('';'', cat_delimiter),
      (''}'', cat_delimiter)]"

definition ASTGeneration_title2_text :: string where
  "ASTGeneration_title2_text = [CHR 0xE6, CHR 0xAD, CHR 0xA5, CHR 0xE9, CHR 0xAA, CHR 0xA4] @ '' 2: '' @ [CHR 0xE8, CHR 0xAF, CHR 0x8D, CHR 0xE6, CHR 0xB3, CHR 0x95, CHR 0xE5, CHR 0x88, CHR 0x86, CHR 0xE6, CHR 0x9E, CHR 0x90] @ '' (Tokenization)''"

text \<open>The loop \<open>for token, token_type in tokens\<close>; its state is the line being filled,
  the position of the next token, the number of tokens in the line, and the finished lines.\<close>

fun tokens_loop ::
  "(string \<times> string) list \<Rightarrow> real \<Rightarrow> int \<Rightarrow> mobject \<Rightarrow> real \<Rightarrow> real \<Rightarrow> int \<Rightarrow> mobject list \<Rightarrow> nat
   \<Rightarrow> mobject \<times> mobject list \<times> nat" where
  "tokens_loop [] x_start tokens_per_line current_line x_pos y_pos tokens_in_line token_groups h =
     (current_line, token_groups, h)"
| "tokens_loop ((token, token_type) # rest) x_start tokens_per_line current_line x_pos y_pos
       tokens_in_line token_groups h =
     (let color =
            (if token_type = cat_keyword then YELLOW
             else if token_type = cat_identifier then GREEN
             else if token_type = cat_operator then RED
             else if token_type = cat_literal then BLUE
             else WHITE);
          (token_text, h) = new_Text token 24 color NORMAL ''monospace'' h;
          token_text = call (MoveTo (Vec x_pos y_pos 0)) token_text;
          (type_text, h) = new_Text token_type 14 GRAY NORMAL [] h;
          type_text = call (NextTo token_text DOWN 0.1) type_text;
          (token_group, h) = new_VGroup [token_text, type_text] h;
          current_line = add current_line token_group;
          x_pos = x_pos + 2.0;
          tokens_in_line = tokens_in_line + 1
      in if tokens_in_line \<ge> tokens_per_line \<or> x_pos > 6 then
           (let x_pos = x_start;
                y_pos = y_pos - 1.2;
                tokens_in_line = 0;
                token_groups = token_groups @ [current_line];
                (current_line, h) = new_VGroup [] h
            in tokens_loop rest x_start tokens_per_line current_line x_pos y_pos tokens_in_line
                 token_groups h)
         else tokens_loop rest x_start tokens_per_line current_line x_pos y_pos tokens_in_line
                token_groups h)"

text \<open>The loop \<open>for i, group in enumerate(token_groups): self.play(...)\<close>.\<close>

fun play_groups :: "mobject list \<Rightarrow> 'a scene_scheme \<Rightarrow> 'a scene_scheme" where
  "play_groups [] s = s"
| "play_groups (grp # groups) s =
     play_groups groups (play (map Write (submobjects grp)) (Some 0.3) s)"

definition ASTGeneration_show_tokenization ::
  "ASTGeneration_scene \<Rightarrow> nat \<Rightarrow> (ASTGeneration_scene \<times> nat) option" where
  "ASTGeneration_show_tokenization s h =
     (let (new_title, h) = new_Text ASTGeneration_title2_text 36 GREEN NORMAL [] h;
          new_title = call (ToCorner UL (Some 0.5)) new_title
      in do {
        title \<leftarrow> ast_title s;
        let s = play [Transform title new_title] None s;
        code_box \<leftarrow> ast_code_box s;
        code_group \<leftarrow> ast_code_group s;
        let s = play [FadeOut [code_box], FadeOut [code_group]] None s;
        let token_groups = [];
        let (current_line, h) = new_VGroup [] h;
        let x_start = - 6;
        let y_pos = 2.5;
        let x_pos = x_start;
        let tokens_per_line = 6;
        let tokens_in_line = 0;
        let (current_line, token_groups, h) =
              tokens_loop tokens x_start tokens_per_line current_line x_pos y_pos tokens_in_line
                token_groups h;
        let token_groups =
              (if length (submobjects current_line) > 0 then token_groups @ [current_line]
               else token_groups);
        let (all_tokens, h) = new_VGroup (concat (map submobjects token_groups)) h;
        let all_tokens = call (Scale 0.8) all_tokens;
        let all_tokens = call (MoveTo (PAdd ORIGIN (PMul DOWN 0.5))) all_tokens;
        let token_groups = map (refresh (submobjects all_tokens)) token_groups;
        let s = play_groups token_groups s;
        Some (s\<lparr>ast_token_groups := Some token_groups\<rparr>, h)
      })"

definition ASTGeneration_title3_text :: string where
  "ASTGeneration_title3_text = [CHR 0xE6, CHR 0xAD, CHR 0xA5, CHR 0xE9, CHR 0xAA, CHR 0xA4] @ '' 3: '' @ [CHR 0xE8, CHR 0xAF, CHR 0xAD, CHR 0xE6, CHR 0xB3, CHR 0x95, CHR 0xE5, CHR 0x88, CHR 0x86, CHR 0xE6, CHR 0x9E, CHR 0x90] @ '' (Parsing)''"

definition ASTGeneration_rule0_text :: string where
  "ASTGeneration_rule0_text = [CHR 0xE8, CHR 0xA7, CHR 0xA3, CHR 0xE6, CHR 0x9E, CHR 0x90, CHR 0xE8, CHR 0xA7, CHR 0x84, CHR 0xE5, CHR 0x88, CHR 0x99, CHR 0xEF, CHR 0xBC, CHR 0x9A]"

definition ASTGeneration_rule1_text :: string where
  "ASTGeneration_rule1_text =
     ''1. FunctionDeclaration '' @ [CHR 0xE2, CHR 0x86, CHR 0x92] @ '' int IDENTIFIER ( ) { BlockStatement }''"

definition ASTGeneration_rule2_text :: string where
  "ASTGeneration_rule2_text =
     ''2. BlockStatement '' @ [CHR 0xE2, CHR 0x86, CHR 0x92] @ '' Statement*''"

definition ASTGeneration_rule3_text :: string where
  "ASTGeneration_rule3_text =
     ''3. Statement '' @ [CHR 0xE2, CHR 0x86, CHR 0x92] @ '' VariableDeclaration | IfStatement | ReturnStatement''"

definition ASTGeneration_rule4_text :: string where
  "ASTGeneration_rule4_text =
     ''4. VariableDeclaration '' @ [CHR 0xE2, CHR 0x86, CHR 0x92] @ '' int IDENTIFIER [= Expression];''"

definition ASTGeneration_rule5_text :: string where
  "ASTGeneration_rule5_text =
     ''5. IfStatement '' @ [CHR 0xE2, CHR 0x86, CHR 0x92] @ '' if ( Expression ) Statement [else Statement]''"

definition ASTGeneration_rule6_text :: string where
  "ASTGeneration_rule6_text =
     ''6. ReturnStatement '' @ [CHR 0xE2, CHR 0x86, CHR 0x92] @ '' return [Expression];''"

definition ASTGeneration_show_parsing ::
  "ASTGeneration_scene \<Rightarrow> nat \<Rightarrow> (ASTGeneration_scene \<times> nat) option" where
  "ASTGeneration_show_parsing s h =
     (let (new_title, h) = new_Text ASTGeneration_title3_text 36 ORANGE NORMAL [] h;
          new_title = call (ToCorner UL (Some 0.5)) new_title
      in do {
        title \<leftarrow> ast_title s;
        let s = play [Transform title new_title] None s;
        token_groups \<leftarrow> ast_token_groups s;
        let s = play [FadeOut (concat (map submobjects token_groups))] None s;
        let (r0, h) = new_Text ASTGeneration_rule0_text 28 GREEN NORMAL [] h;
        let (r1, h) = new_Text ASTGeneration_rule1_text 24 WHITE NORMAL [] h;
        let (r2, h) = new_Text ASTGeneration_rule2_text 24 WHITE NORMAL [] h;
        let (r3, h) = new_Text ASTGeneration_rule3_text 24 WHITE NORMAL [] h;
        let (r4, h) = new_Text ASTGeneration_rule4_text 24 WHITE NORMAL [] h;
        let (r5, h) = new_Text ASTGeneration_rule5_text 24 WHITE NORMAL [] h;
        let (r6, h) = new_Text ASTGeneration_rule6_text 24 WHITE NORMAL [] h;
        let (rules, h) = new_VGroup [r0, r1, r2, r3, r4, r5, r6] h;
        let rules = call (Arrange DOWN LEFT 0.4) rules;
        let rules = call (Scale 0.85) rules;
        let rules = call (MoveTo ORIGIN) rules;
        let s = play [Write rules] (Some 3) s;
        Some (s\<lparr>ast_rules := Some rules\<rparr>, h)
      })"

text \<open>The loop \<open>for line in lines\<close> of \<open>create_ast_node\<close>.\<close>

fun node_lines_loop :: "string list \<Rightarrow> mobject \<Rightarrow> nat \<Rightarrow> mobject \<times> nat" where
  "node_lines_loop [] text_group h = (text_group, h)"
| "node_lines_loop (line # lines) text_group h =
     (let (line_text, h) = new_Text line 18 WHITE NORMAL ''monospace'' h
      in node_lines_loop lines (add text_group line_text) h)"

definition create_ast_node :: "string \<Rightarrow> color \<Rightarrow> pt \<Rightarrow> nat \<Rightarrow> mobject \<times> nat" where
  "create_ast_node text c position h =
     (let lines = split (CHR 0x0A) text;
          (text_group, h) = new_VGroup [] h;
          (text_group, h) = node_lines_loop lines text_group h;
          text_group = call (Arrange DOWN LEFT 0.12) text_group;
          (box, h) = new_SurroundingRectangle text_group c 0.25 (Some 0.25) 2.5 h;
          (node, h) = new_VGroup [box, text_group] h;
          node = call (MoveTo position) node;
          node = call (Scale 0.55) node
      in (node, h))"

definition connect_nodes :: "mobject \<Rightarrow> mobject \<Rightarrow> nat \<Rightarrow> mobject \<times> nat" where
  "connect_nodes parent child h =
     (let parent_bottom = get_bottom parent;
          child_top = get_top child;
          (arrow, h) = new_Arrow parent_bottom child_top GRAY 0.1 1.5 0.15 h
      in (arrow, h))"

definition ASTGeneration_title4_text :: string where
  "ASTGeneration_title4_text = [CHR 0xE6, CHR 0xAD, CHR 0xA5, CHR 0xE9, CHR 0xAA, CHR 0xA4] @ '' 4: AST '' @ [CHR 0xE6, CHR 0x9E, CHR 0x84, CHR 0xE5, CHR 0xBB, CHR 0xBA]"

definition ASTGeneration_show_ast_building ::
  "ASTGeneration_scene \<Rightarrow> nat \<Rightarrow> (ASTGeneration_scene \<times> nat) option" where
  "ASTGeneration_show_ast_building s h =
     (let (new_title, h) = new_Text ASTGeneration_title4_text 36 PURPLE NORMAL [] h;
          new_title = call (ToCorner UL (Some 0.5)) new_title
      in do {
        title \<leftarrow> ast_title s;
        let s = play [Transform title new_title] None s;
        rules \<leftarrow> ast_rules s;
        let s = play [FadeOut [rules]] None s;
        let s = s\<lparr>ast_connections := Some []\<rparr>;
        let (program, h) = create_ast_node ''Program'' BLUE (PMul UP 3.5) h;
        let (func_decl, h) = create_ast_node (''FunctionDeclaration'' @ [CHR 0x0A] @ ''checkGrade'') GREEN (PMul UP 2.5) h;
        let (arrow1, h) = connect_nodes program func_decl h;
        let (block_stmt, h) = create_ast_node ''BlockStatement'' YELLOW (PMul UP 1.5) h;
        let (arrow2, h) = connect_nodes func_decl block_stmt h;
        let (var_decl1, h) = create_ast_node (''VariableDeclaration'' @ [CHR 0x0A] @ ''int grade = 0'') ORANGE
              (PAdd (PMul LEFT 4.5) (PMul DOWN 0.5)) h;
        let (arrow3, h) = connect_nodes block_stmt var_decl1 h;
        let (var_decl2, h) = create_ast_node (''VariableDeclaration'' @ [CHR 0x0A] @ ''int score = 70'') ORANGE
              (PAdd (PMul LEFT 1.5) (PMul DOWN 0.5)) h;
        let (arrow4, h) = connect_nodes block_stmt var_decl2 h;
        let (if_stmt, h) = create_ast_node ''IfStatement'' RED (PAdd (PMul RIGHT 1.5) (PMul DOWN 0.5)) h;
        let (arrow5, h) = connect_nodes block_stmt if_stmt h;
        let (return_stmt, h) = create_ast_node (''ReturnStatement'' @ [CHR 0x0A] @ ''return grade'') BLUE
              (PAdd (PMul RIGHT 4.5) (PMul DOWN 0.5)) h;
        let (arrow9, h) = connect_nodes block_stmt return_stmt h;
        let (condition, h) = create_ast_node (''BinaryExpression'' @ [CHR 0x0A] @ ''>='' @ [CHR 0x0A] @ ''score, 90'') PURPLE
              (PAdd (PMul RIGHT 1.5) (PMul DOWN 1.8)) h;
        let (arrow6, h) = connect_nodes if_stmt condition h;
        let (then_branch, h) = create_ast_node (''AssignmentStatement'' @ [CHR 0x0A] @ ''grade = 1'') GREEN
              (PAdd (PMul RIGHT 0.3) (PMul DOWN 3.2)) h;
        let (arrow7, h) = connect_nodes if_stmt then_branch h;
        let (else_branch, h) = create_ast_node (''AssignmentStatement'' @ [CHR 0x0A] @ ''grade = 2'') GREEN
              (PAdd (PMul RIGHT 2.7) (PMul DOWN 3.2)) h;
        let (arrow8, h) = connect_nodes if_stmt else_branch h;
        let all_nodes = [program, func_decl, block_stmt, var_decl1, var_decl2, if_stmt,
                         condition, then_branch, else_branch, return_stmt];
        let all_arrows = [arrow1, arrow2, arrow3, arrow4, arrow5, arrow6, arrow7, arrow8, arrow9];
        let s = play [Create program] (Some 0.5) s;
        let s = play [Create func_decl, Create arrow1] (Some 0.5) s;
        let s = play [Create block_stmt, Create arrow2] (Some 0.5) s;
        let s = play [Create var_decl1, Create arrow3, Create var_decl2, Create arrow4] (Some 1) s;
        let s = play [Create if_stmt, Create arrow5] (Some 0.5) s;
        let s = play [Create condition, Create arrow6, Create then_branch, Create arrow7,
                      Create else_branch, Create arrow8] (Some 1.5) s;
        let s = play [Create return_stmt, Create arrow9] (Some 0.5) s;
        Some (s\<lparr>ast_nodes := Some all_nodes, ast_arrows := Some all_arrows\<rparr>, h)
      })"

text \<open>\<open>construct\<close> up to the end of its fourth stage. The run keeps the scene as each of
  the four stage methods leaves it.\<close>

definition ASTGeneration_run ::
  "(ASTGeneration_scene \<times> ASTGeneration_scene \<times> ASTGeneration_scene \<times> ASTGeneration_scene) option" where
  "ASTGeneration_run =
     do {
       (s1, h) \<leftarrow> ASTGeneration_show_source_code source_code ASTGeneration_init 0;
       (s2, h) \<leftarrow> ASTGeneration_show_tokenization (wait 2 s1) h;
       (s3, h) \<leftarrow> ASTGeneration_show_parsing (wait 2 s2) h;
       (s4, h) \<leftarrow> ASTGeneration_show_ast_building (wait 2 s3) h;
       Some (s1, s2, s3, s4)
     }"


section \<open>Reading the scenes\<close>

text \<open>What a block, a tree node and a connector are made of, read back from the objects.\<close>

definition text_content :: "mobject \<Rightarrow> string" where
  "text_content m = (case shape m of Text t _ _ _ _ \<Rightarrow> t | _ \<Rightarrow> [])"

definition block_title :: "mobject \<Rightarrow> string" where
  "block_title b = (case submobjects b of [title, box, content] \<Rightarrow> text_content title | _ \<Rightarrow> [])"

text \<open>The lines of a block: the members of its content group, and the members of the
  group its rectangle was drawn around.\<close>

definition block_lines :: "mobject \<Rightarrow> mobject list" where
  "block_lines b = (case submobjects b of [title, box, content] \<Rightarrow> submobjects content | _ \<Rightarrow> [])"

definition boxed_lines :: "mobject \<Rightarrow> mobject list" where
  "boxed_lines b =
     (case submobjects b of
        [title, box, content] \<Rightarrow>
          (case shape box of SurroundingRectangle inner _ _ _ _ \<Rightarrow> submobjects inner | _ \<Rightarrow> [])
      | _ \<Rightarrow> [])"

definition block_statements :: "mobject \<Rightarrow> string list" where
  "block_statements b = map text_content (block_lines b)"

definition node_label :: "mobject \<Rightarrow> string list" where
  "node_label n =
     (case submobjects n of [box, text_group] \<Rightarrow> map text_content (submobjects text_group) | _ \<Rightarrow> [])"

text \<open>A connector is an arrow, or a group of an arrow and its label.\<close>

definition is_arrow :: "mobject \<Rightarrow> bool" where
  "is_arrow m = (case shape m of Arrow _ _ _ _ _ _ \<Rightarrow> True | _ \<Rightarrow> False)"

definition connector_arrow :: "mobject \<Rightarrow> mobject" where
  "connector_arrow c =
     (case shape c of VGroup \<Rightarrow> (case submobjects c of arrow # _ \<Rightarrow> arrow | [] \<Rightarrow> c) | _ \<Rightarrow> c)"

definition connector_label :: "mobject \<Rightarrow> mobject option" where
  "connector_label c =
     (case shape c of VGroup \<Rightarrow> (case submobjects c of [arrow, label] \<Rightarrow> Some label | _ \<Rightarrow> None)
      | _ \<Rightarrow> None)"

definition start_anchor :: "mobject \<Rightarrow> pt option" where
  "start_anchor c =
     (case shape (connector_arrow c) of Arrow start _ _ _ _ _ \<Rightarrow> Some start | _ \<Rightarrow> None)"

definition end_anchor :: "mobject \<Rightarrow> pt option" where
  "end_anchor c =
     (case shape (connector_arrow c) of Arrow _ end _ _ _ _ \<Rightarrow> Some end | _ \<Rightarrow> None)"

text \<open>The object an anchor point was asked of.\<close>

fun anchor_object :: "pt \<Rightarrow> mobject option" where
  "anchor_object (Critical m d) = Some m"
| "anchor_object (PAdd p q) = anchor_object p"
| "anchor_object (PMul p k) = None"
| "anchor_object (Vec x y z) = None"

definition source_id :: "mobject \<Rightarrow> nat option" where
  "source_id c = (case start_anchor c of None \<Rightarrow> None | Some p \<Rightarrow> map_option oid (anchor_object p))"

definition destination_id :: "mobject \<Rightarrow> nat option" where
  "destination_id c = (case end_anchor c of None \<Rightarrow> None | Some p \<Rightarrow> map_option oid (anchor_object p))"

definition endpoints :: "mobject \<Rightarrow> nat option \<times> nat option" where
  "endpoints c = (source_id c, destination_id c)"

text \<open>The objects a \<open>play\<close> call creates.\<close>

fun created :: "anim list \<Rightarrow> mobject list" where
  "created [] = []"
| "created (Create m # as) = m # created as"
| "created (a # as) = created as"

definition play_creates :: "event \<Rightarrow> mobject list" where
  "play_creates e = (case e of Play anims _ \<Rightarrow> created anims | _ \<Rightarrow> [])"

subsection \<open>The engine's geometry, as a parameter\<close>

text \<open>
  What the engine answers when asked for a critical point of an object depends on its text
  layout, which is outside the repository: it is a parameter \<open>bb\<close>, the bounding box (lower
  and upper corner) the engine gives each object. \<open>critical_point\<close> is the engine's rule:
  per coordinate, the middle for direction 0, the lower bound for a negative and the upper
  bound for a positive direction.
\<close>

type_synonym vec = "real \<times> real \<times> real"

type_synonym bbox = "vec \<times> vec"

definition vadd :: "vec \<Rightarrow> vec \<Rightarrow> vec" where
  "vadd p q = (case (p, q) of ((x, y, z), (x', y', z')) \<Rightarrow> (x + x', y + y', z + z'))"

definition smul :: "vec \<Rightarrow> real \<Rightarrow> vec" where
  "smul p k = (case p of (x, y, z) \<Rightarrow> (x * k, y * k, z * k))"

definition pick :: "real \<Rightarrow> real \<Rightarrow> real \<Rightarrow> real" where
  "pick lo hi d = (if d = 0 then (hi + lo) / 2 else if d < 0 then lo else hi)"

definition critical_point :: "bbox \<Rightarrow> vec \<Rightarrow> vec" where
  "critical_point b d =
     (case (b, d) of (((x0, y0, z0), (x1, y1, z1)), (dx, dy, dz)) \<Rightarrow>
        (pick x0 x1 dx, pick y0 y1 dy, pick z0 z1 dz))"

fun eval_pt :: "(mobject \<Rightarrow> bbox) \<Rightarrow> pt \<Rightarrow> vec" where
  "eval_pt bb (Vec x y z) = (x, y, z)"
| "eval_pt bb (Critical m d) = critical_point (bb m) (eval_pt bb d)"
| "eval_pt bb (PAdd p q) = vadd (eval_pt bb p) (eval_pt bb q)"
| "eval_pt bb (PMul p k) = smul (eval_pt bb p) k"

text \<open>The middles of the four edges of a bounding box (in the plane of the screen), and
  what it is for a point to lie on the top edge.\<close>

definition top_mid :: "bbox \<Rightarrow> vec" where
  "top_mid b = (case b of ((x0, y0, z0), (x1, y1, z1)) \<Rightarrow> ((x1 + x0) / 2, y1, (z1 + z0) / 2))"

definition bottom_mid :: "bbox \<Rightarrow> vec" where
  "bottom_mid b = (case b of ((x0, y0, z0), (x1, y1, z1)) \<Rightarrow> ((x1 + x0) / 2, y0, (z1 + z0) / 2))"

definition left_mid :: "bbox \<Rightarrow> vec" where
  "left_mid b = (case b of ((x0, y0, z0), (x1, y1, z1)) \<Rightarrow> (x0, (y1 + y0) / 2, (z1 + z0) / 2))"

definition right_mid :: "bbox \<Rightarrow> vec" where
  "right_mid b = (case b of ((x0, y0, z0), (x1, y1, z1)) \<Rightarrow> (x1, (y1 + y0) / 2, (z1 + z0) / 2))"

definition box_center :: "bbox \<Rightarrow> vec" where
  "box_center b =
     (case b of ((x0, y0, z0), (x1, y1, z1)) \<Rightarrow> ((x1 + x0) / 2, (y1 + y0) / 2, (z1 + z0) / 2))"

definition on_top_edge :: "bbox \<Rightarrow> vec \<Rightarrow> bool" where
  "on_top_edge b p =
     (case (b, p) of (((x0, y0, z0), (x1, y1, z1)), (x, y, z)) \<Rightarrow> y = y1 \<and> x0 \<le> x \<and> x \<le> x1)"

subsection \<open>The groups of the scenes\<close>

definition BuildBasicBlocks_blocks :: "mobject list" where
  "BuildBasicBlocks_blocks =
     (case events (fst (BuildBasicBlocks_construct \<lparr>events = []\<rparr> 0)) of
        [Add (title # blocks)] \<Rightarrow> blocks
      | _ \<Rightarrow> [])"

definition FinalCFG_blocks :: "mobject list" where
  "FinalCFG_blocks = (case FinalCFG_build 0 of Some (blocks, arrows, h) \<Rightarrow> submobjects blocks | None \<Rightarrow> [])"

definition FinalCFG_arrows :: "mobject list" where
  "FinalCFG_arrows = (case FinalCFG_build 0 of Some (blocks, arrows, h) \<Rightarrow> submobjects arrows | None \<Rightarrow> [])"

definition group_members :: "mobject option \<Rightarrow> mobject list" where
  "group_members g = (case g of Some m \<Rightarrow> submobjects m | None \<Rightarrow> [])"

definition initial_blocks :: "mobject list" where
  "initial_blocks =
     (case BlockMerging_run of Some (s1, h, s3) \<Rightarrow> group_members (bm_blocks s1) | None \<Rightarrow> [])"

definition initial_arrows :: "mobject list" where
  "initial_arrows =
     (case BlockMerging_run of Some (s1, h, s3) \<Rightarrow> group_members (bm_arrows s1) | None \<Rightarrow> [])"

definition initial_events :: "event list" where
  "initial_events = (case BlockMerging_run of Some (s1, h, s3) \<Rightarrow> events s1 | None \<Rightarrow> [])"

definition merged_blocks :: "mobject list" where
  "merged_blocks =
     (case BlockMerging_run of Some (s1, h, s3) \<Rightarrow> group_members (bm_blocks s3) | None \<Rightarrow> [])"

definition merged_arrows :: "mobject list" where
  "merged_arrows =
     (case BlockMerging_run of Some (s1, h, s3) \<Rightarrow> group_members (bm_arrows s3) | None \<Rightarrow> [])"

text \<open>The next free identity when the merge step starts: an object with a smaller
  identity existed before the step, one with this identity or a larger one is new.\<close>

definition allocated_before_merging :: nat where
  "allocated_before_merging = (case BlockMerging_run of Some (s1, h, s3) \<Rightarrow> h | None \<Rightarrow> 0)"

text \<open>A connector is incident to a block when it starts or ends at it.\<close>

definition incident :: "mobject list \<Rightarrow> mobject \<Rightarrow> bool" where
  "incident bs c =
     ((case source_id c of Some i \<Rightarrow> i \<in> set (map oid bs) | None \<Rightarrow> False)
      \<or> (case destination_id c of Some i \<Rightarrow> i \<in> set (map oid bs) | None \<Rightarrow> False))"

text \<open>The calls a connector's label has received, with the text of the label.\<close>

definition label_placement :: "mobject \<Rightarrow> (string \<times> meth list) option" where
  "label_placement c =
     (case connector_label c of
        Some label \<Rightarrow> Some (text_content label, map snd (history label))
      | None \<Rightarrow> None)"

text \<open>
  Where the calls a label has received put its centre: \<open>move_to\<close> puts it at the given
  point, \<open>shift\<close> moves it by the given vector, the style calls leave it where it is, and
  after any other call the model does not say (\<open>None\<close>).
\<close>

fun place :: "(mobject \<Rightarrow> bbox) \<Rightarrow> meth list \<Rightarrow> vec option \<Rightarrow> vec option" where
  "place bb [] p = p"
| "place bb (MoveTo q # ms) p = place bb ms (Some (eval_pt bb q))"
| "place bb (Shift v # ms) p = place bb ms (map_option (\<lambda>p. vadd p (eval_pt bb v)) p)"
| "place bb (SetOpacity k # ms) p = place bb ms p"
| "place bb (SetStroke w k # ms) p = place bb ms p"
| "place bb (SetColor c # ms) p = place bb ms p"
| "place bb (m # ms) p = None"

definition label_position :: "(mobject \<Rightarrow> bbox) \<Rightarrow> mobject \<Rightarrow> vec option" where
  "label_position bb c =
     (case connector_label c of
        Some label \<Rightarrow> place bb (map snd (history label)) None
      | None \<Rightarrow> None)"

definition label_text :: "mobject \<Rightarrow> string option" where
  "label_text c = map_option text_content (connector_label c)"

text \<open>A geometry for examples: every object is given the box from \<open>(-1, -1, 0)\<close> to
  \<open>(1, 1, 0)\<close>.\<close>

definition unit_box :: "mobject \<Rightarrow> bbox" where
  "unit_box m = ((- 1, - 1, 0), (1, 1, 0))"

text \<open>The lines of source text shown in the first stage.\<close>

definition shown_source_lines :: "string list" where
  "shown_source_lines =
     (case ASTGeneration_run of
        Some (s1, s2, s3, s4) \<Rightarrow> map text_content (group_members (ast_code_group s1))
      | None \<Rightarrow> [])"

definition token_lines :: "mobject list" where
  "token_lines =
     (case ASTGeneration_run of
        Some (s1, s2, s3, s4) \<Rightarrow> (case ast_token_groups s2 of Some gs \<Rightarrow> gs | None \<Rightarrow> [])
      | None \<Rightarrow> [])"

text \<open>A displayed token: the token text and the category text under it.\<close>

definition displayed_token :: "mobject \<Rightarrow> string \<times> string" where
  "displayed_token g =
     (case submobjects g of
        [token_text, type_text] \<Rightarrow> (text_content token_text, text_content type_text)
      | _ \<Rightarrow> ([], []))"

text \<open>The objects the \<open>play\<close> calls of the token stage write, in order: the events the
  stage adds to the scene, after the wait that precedes it.\<close>

fun written :: "anim list \<Rightarrow> mobject list" where
  "written [] = []"
| "written (Write m # as) = m # written as"
| "written (a # as) = written as"

definition play_writes :: "event \<Rightarrow> mobject list" where
  "play_writes e = (case e of Play anims _ \<Rightarrow> written anims | _ \<Rightarrow> [])"

definition token_stage_events :: "event list" where
  "token_stage_events =
     (case ASTGeneration_run of
        Some (s1, s2, s3, s4) \<Rightarrow> drop (Suc (length (events s1))) (events s2)
      | None \<Rightarrow> [])"

definition displayed_tokens :: "(string \<times> string) list" where
  "displayed_tokens = map displayed_token (concat (map play_writes token_stage_events))"

definition tree_nodes :: "mobject list" where
  "tree_nodes =
     (case ASTGeneration_run of
        Some (s1, s2, s3, s4) \<Rightarrow> (case ast_nodes s4 of Some ns \<Rightarrow> ns | None \<Rightarrow> [])
      | None \<Rightarrow> [])"

definition tree_arrows :: "mobject list" where
  "tree_arrows =
     (case ASTGeneration_run of
        Some (s1, s2, s3, s4) \<Rightarrow> (case ast_arrows s4 of Some as \<Rightarrow> as | None \<Rightarrow> [])
      | None \<Rightarrow> [])"

text \<open>The events of the tree stage (those \<open>show_ast_building\<close> adds, after the wait that
  precedes it), and the objects created by each of its \<open>play\<close> calls that creates any, in
  order.\<close>

definition tree_events :: "event list" where
  "tree_events =
     (case ASTGeneration_run of
        Some (s1, s2, s3, s4) \<Rightarrow> drop (Suc (length (events s3))) (events s4)
      | None \<Rightarrow> [])"

definition tree_reveals :: "mobject list list" where
  "tree_reveals = filter (\<lambda>ms. ms \<noteq> []) (map play_creates tree_events)"

text \<open>The children of a tree node: the nodes some connector joins it to.\<close>

definition children :: "mobject list \<Rightarrow> mobject list \<Rightarrow> mobject \<Rightarrow> mobject list" where
  "children nodes arrows n =
     filter (\<lambda>c. list_ex (\<lambda>a. endpoints a = (Some (oid n), Some (oid c))) arrows) nodes"

text \<open>The number of connectors that end at a node.\<close>

definition in_degree :: "mobject list \<Rightarrow> mobject \<Rightarrow> nat" where
  "in_degree arrows n = length (filter (\<lambda>a. destination_id a = Some (oid n)) arrows)"

subsection \<open>Splitting source text into lexemes\<close>

text \<open>
  The repository has no lexer: the token list is literal. To compare it with the source
  program, \<open>lexemes\<close> splits a text the way the glossary describes a token: a lexical unit
  produced by splitting source text. A lexeme is a maximal run of letters, digits and
  underscores, or a two-character comparison operator, or any other single character that
  is not white space.
\<close>

definition is_word_char :: "char \<Rightarrow> bool" where
  "is_word_char c =
     (let n = (of_char c :: nat)
      in (48 \<le> n \<and> n \<le> 57) \<or> (65 \<le> n \<and> n \<le> 90) \<or> (97 \<le> n \<and> n \<le> 122) \<or> n = 95)"

definition flush :: "string \<Rightarrow> string list" where
  "flush w = (if w = [] then [] else [w])"

fun lexemes_from :: "string \<Rightarrow> string \<Rightarrow> string list" where
  "lexemes_from w [] = flush w"
| "lexemes_from w [c] =
     (if is_word_char c then flush (w @ [c])
      else if is_space c then flush w
      else flush w @ [[c]])"
| "lexemes_from w (c # d # cs) =
     (if is_word_char c then lexemes_from (w @ [c]) (d # cs)
      else if is_space c then flush w @ lexemes_from [] (d # cs)
      else if d = CHR ''='' \<and> c \<in> set ''<>=!'' then flush w @ [[c, d]] @ lexemes_from [] cs
      else flush w @ [[c]] @ lexemes_from [] (d # cs))"

definition lexemes :: "string \<Rightarrow> string list" where
  "lexemes s = lexemes_from [] s"


section \<open>Theorems\<close>

text \<open>
  C10. The three copies of the block box builder (in the scenes BuildBasicBlocks, FinalCFG
  and BlockMerging) are the same function: for every block identifier, statement list,
  colour and allocation state they build the same object (same title text and placement,
  same statement layout, same surrounding rectangle) and leave the same allocation state.
\<close>

theorem create_block_box_copies_equal:
  "BuildBasicBlocks_create_block_box block_id statements c h
     = FinalCFG_create_block_box block_id statements c h
   \<and> FinalCFG_create_block_box block_id statements c h
     = BlockMerging_create_block_box block_id statements c h"
  unfolding BuildBasicBlocks_create_block_box_def FinalCFG_create_block_box_def
    BlockMerging_create_block_box_def
  by (rule conjI; rule refl)


subsection \<open>The block-merging scene, evaluated\<close>

text \<open>
  The run of the block-merging scene succeeds. In the facts below \<open>bs\<close> and \<open>as\<close> are the
  blocks and connectors after the first stage, \<open>bs'\<close> and \<open>as'\<close> those after the merge step,
  and \<open>h\<close> is the next free identity when the merge step starts.
\<close>

lemma created_map_Create: "created (map Create ms) = ms"
  by (induction ms) simp_all

lemma BlockMerging_run_facts:
  "case BlockMerging_run of
     None \<Rightarrow> False
   | Some (s1, h, s3) \<Rightarrow>
       (let bs = group_members (bm_blocks s1); as = group_members (bm_arrows s1);
            bs' = group_members (bm_blocks s3); as' = group_members (bm_arrows s3)
        in length bs = 9 \<and> length as = 9 \<and> length bs' = 7 \<and> length as' = 7
         \<and> (case bm_title s1 of
               Some t \<Rightarrow> events s1 = [Play [Write t] None, Play (map Create bs) (Some 2),
                                        Play (map Create as) (Some 2)]
             | None \<Rightarrow> False)
         \<and> bs' ! 0 = bs ! 0 \<and> drop 2 bs' = drop 4 bs
         \<and> set bs' = set bs - {bs ! 1, bs ! 2, bs ! 3} \<union> {bs' ! 1}
         \<and> h \<le> oid (bs' ! 1)
         \<and> list_all (\<lambda>m. oid m < h) (bs @ as)
         \<and> map block_title bs = [''entry_block'', ''block_1'', ''block_2'', ''block_3'', ''block_4'',
                                   ''block_5'', ''block_6'', ''block_7'', ''exit_block'']
         \<and> map block_statements bs
             = [[''int x = 0;'', ''int y = 1;''], [''x = x + 1;''], [''y = y * 2;''],
                [''int z = x + y;''], [''if (z > 10)''], [''x = 100;''], [''x = 200;''],
                [''return x;''], [''(empty)'']]
         \<and> map (\<lambda>b. map text_content (boxed_lines b)) bs
             = [[''int x = 0;'', ''int y = 1;''], [''x = x + 1;''], [''y = y * 2;''],
                [''int z = x + y;''], [''if (z > 10)''], [''x = 100;''], [''x = 200;''],
                [''return x;''], [''(empty)'']]
         \<and> block_title (bs' ! 1) = ''merged_block''
         \<and> concat (map block_statements [bs ! 1, bs ! 2, bs ! 3])
             = [''x = x + 1;'', ''y = y * 2;'', ''int z = x + y;'']
         \<and> block_statements (bs' ! 1) = [''x = x + 1;'', ''y = y * 2;'', ''int z = x + y;'']
         \<and> drop 2 as' = drop 4 as
         \<and> filter (incident [bs ! 1, bs ! 2, bs ! 3]) as = take 4 as
         \<and> set as' = set as - set (take 4 as) \<union> {as' ! 0, as' ! 1}
         \<and> as' ! 0 \<noteq> as' ! 1 \<and> h \<le> oid (as' ! 0) \<and> h \<le> oid (as' ! 1)
         \<and> map endpoints as
             = map (\<lambda>(f, t, l). (Some (oid (bs ! nat f)), Some (oid (bs ! nat t)))) BlockMerging_connections
         \<and> endpoints (as' ! 0) = (Some (oid (bs ! 0)), Some (oid (bs' ! 1)))
         \<and> endpoints (as' ! 1) = (Some (oid (bs' ! 1)), Some (oid (bs ! 4)))
         \<and> drop 11 (events s3)
             = [Play (map (\<lambda>m. FadeOut [m]) (take 3 (drop 1 bs) @ take 4 as)) (Some 1),
                Play [Create (bs' ! 1)] (Some 1),
                Play [Create (as' ! 0), Create (as' ! 1)] (Some 1)])"
  by code_simp

lemma BlockMerging_run_Some: "\<exists>s1 h s3. BlockMerging_run = Some (s1, h, s3)"
  using BlockMerging_run_facts by (cases BlockMerging_run) auto

lemmas BlockMerging_projections =
  initial_blocks_def initial_arrows_def initial_events_def merged_blocks_def merged_arrows_def
  allocated_before_merging_def

text \<open>
  C2. The first stage of the block-merging scene builds exactly 9 blocks and exactly 9
  connectors (and hands exactly these to the engine, in two calls after the title); after
  the merge step the scene's block group holds exactly 7 blocks and its connector group
  exactly 7 connectors.
\<close>

theorem block_and_connector_counts:
  "length initial_blocks = 9 \<and> length initial_arrows = 9
   \<and> length merged_blocks = 7 \<and> length merged_arrows = 7
   \<and> map play_creates initial_events = [[], initial_blocks, initial_arrows]"
proof -
  obtain s1 h s3 where run: "BlockMerging_run = Some (s1, h, s3)"
    using BlockMerging_run_Some by blast
  show ?thesis
    using BlockMerging_run_facts
    by (simp add: run BlockMerging_projections Let_def play_creates_def created_map_Create
          split: option.splits)
qed

text \<open>
  C7. In the literal connection list of the first stage, every index is a valid index into
  the 9 blocks; exactly one connection is labelled "true" and exactly one "false", both
  leave index 4 (the condition block, \<open>block_4\<close>, "if (z > 10)"), and these two are the only
  labelled connections.
\<close>

theorem initial_connection_list:
  "list_all (\<lambda>(from_idx, to_idx, label).
        0 \<le> from_idx \<and> from_idx < int (length initial_blocks)
      \<and> 0 \<le> to_idx \<and> to_idx < int (length initial_blocks)) BlockMerging_connections
   \<and> length initial_blocks = 9
   \<and> filter (\<lambda>(from_idx, to_idx, label). label = Some ''true'') BlockMerging_connections
       = [(4, 5, Some ''true'')]
   \<and> filter (\<lambda>(from_idx, to_idx, label). label = Some ''false'') BlockMerging_connections
       = [(4, 6, Some ''false'')]
   \<and> filter (\<lambda>(from_idx, to_idx, label). label \<noteq> None) BlockMerging_connections
       = [(4, 5, Some ''true''), (4, 6, Some ''false'')]
   \<and> block_title (initial_blocks ! 4) = ''block_4''
   \<and> block_statements (initial_blocks ! 4) = [''if (z > 10)'']"
proof -
  obtain s1 h s3 where run: "BlockMerging_run = Some (s1, h, s3)"
    using BlockMerging_run_Some by blast
  have len: "length initial_blocks = 9"
    and titles: "map block_title initial_blocks = [''entry_block'', ''block_1'', ''block_2'', ''block_3'', ''block_4'',
                                   ''block_5'', ''block_6'', ''block_7'', ''exit_block'']"
    and stmts: "map block_statements initial_blocks
             = [[''int x = 0;'', ''int y = 1;''], [''x = x + 1;''], [''y = y * 2;''],
                [''int z = x + y;''], [''if (z > 10)''], [''x = 100;''], [''x = 200;''],
                [''return x;''], [''(empty)'']]"
    using BlockMerging_run_facts
    by (simp_all add: run BlockMerging_projections Let_def)
  have t4: "block_title (initial_blocks ! 4) = map block_title initial_blocks ! 4"
    and s4: "block_statements (initial_blocks ! 4) = map block_statements initial_blocks ! 4"
    using len by simp_all
  show ?thesis
    unfolding t4 s4 titles stmts
    by (simp add: len BlockMerging_connections_def)
qed

text \<open>
  C1. The post-state of the merge step. Blocks: the first block (entry) is kept, the blocks
  from index 4 on are kept, in order, and the one other block is new (its identity was not
  allocated before the step); as a set, the blocks are the nine original ones without
  \<open>block_1\<close>, \<open>block_2\<close>, \<open>block_3\<close>, with the new block. The new block's statements are
  those of the three removed blocks, concatenated in chain order. Connectors: the
  connectors from index 4 on are the original objects, unchanged; the connectors incident
  to a removed block are exactly the first four (entry to \<open>block_1\<close>, \<open>block_1\<close> to
  \<open>block_2\<close>, \<open>block_2\<close> to \<open>block_3\<close>, \<open>block_3\<close> to condition); as a set, the connectors
  are the nine original ones without these four, with two new ones, which run from entry
  to the merged block and from the merged block to the condition block.
\<close>

theorem perform_merging_post_state:
  "length initial_blocks = 9 \<and> length merged_blocks = 7
   \<and> merged_blocks ! 0 = initial_blocks ! 0
   \<and> drop 2 merged_blocks = drop 4 initial_blocks
   \<and> set merged_blocks
       = set initial_blocks - {initial_blocks ! 1, initial_blocks ! 2, initial_blocks ! 3}
         \<union> {merged_blocks ! 1}
   \<and> allocated_before_merging \<le> oid (merged_blocks ! 1)
   \<and> list_all (\<lambda>m. oid m < allocated_before_merging) (initial_blocks @ initial_arrows)
   \<and> map block_title initial_blocks
       = [''entry_block'', ''block_1'', ''block_2'', ''block_3'', ''block_4'',
          ''block_5'', ''block_6'', ''block_7'', ''exit_block'']
   \<and> block_title (merged_blocks ! 1) = ''merged_block''
   \<and> block_statements (merged_blocks ! 1)
       = concat (map block_statements [initial_blocks ! 1, initial_blocks ! 2, initial_blocks ! 3])
   \<and> block_statements (merged_blocks ! 1) = [''x = x + 1;'', ''y = y * 2;'', ''int z = x + y;'']
   \<and> length initial_arrows = 9 \<and> length merged_arrows = 7
   \<and> drop 2 merged_arrows = drop 4 initial_arrows
   \<and> filter (incident [initial_blocks ! 1, initial_blocks ! 2, initial_blocks ! 3]) initial_arrows
       = take 4 initial_arrows
   \<and> set merged_arrows
       = set initial_arrows - set (take 4 initial_arrows) \<union> {merged_arrows ! 0, merged_arrows ! 1}
   \<and> merged_arrows ! 0 \<noteq> merged_arrows ! 1
   \<and> allocated_before_merging \<le> oid (merged_arrows ! 0)
   \<and> allocated_before_merging \<le> oid (merged_arrows ! 1)
   \<and> map endpoints initial_arrows
       = map (\<lambda>(from_idx, to_idx, label).
                (Some (oid (initial_blocks ! nat from_idx)), Some (oid (initial_blocks ! nat to_idx))))
           BlockMerging_connections
   \<and> endpoints (merged_arrows ! 0) = (Some (oid (initial_blocks ! 0)), Some (oid (merged_blocks ! 1)))
   \<and> endpoints (merged_arrows ! 1) = (Some (oid (merged_blocks ! 1)), Some (oid (initial_blocks ! 4)))"
proof -
  obtain s1 h s3 where run: "BlockMerging_run = Some (s1, h, s3)"
    using BlockMerging_run_Some by blast
  show ?thesis
    using BlockMerging_run_facts
    by (simp add: run BlockMerging_projections Let_def)
qed


subsection \<open>Anchors and labels of the connectors\<close>

text \<open>What the symbolic anchor points evaluate to, for any geometry of the engine.\<close>

lemma eval_critical:
  "eval_pt bb (get_top m) = top_mid (bb m)"
  "eval_pt bb (get_bottom m) = bottom_mid (bb m)"
  "eval_pt bb (get_left m) = left_mid (bb m)"
  "eval_pt bb (get_right m) = right_mid (bb m)"
  "eval_pt bb (get_center m) = box_center (bb m)"
  by (cases "bb m";
      simp add: get_top_def get_bottom_def get_left_def get_right_def get_center_def
        UP_def DOWN_def LEFT_def RIGHT_def ORIGIN_def critical_point_def pick_def
        top_mid_def bottom_mid_def left_mid_def right_mid_def box_center_def)+

lemma eval_direction:
  "smul (eval_pt bb UP) k = (0, k, 0)"
  "smul (eval_pt bb DOWN) k = (0, - k, 0)"
  "smul (eval_pt bb LEFT) k = (- k, 0, 0)"
  "smul (eval_pt bb RIGHT) k = (k, 0, 0)"
  by (simp_all add: UP_def DOWN_def LEFT_def RIGHT_def smul_def)

lemma not_on_top_edge: "0 < k \<Longrightarrow> \<not> on_top_edge b (vadd (top_mid b) (0, k, 0))"
  by (cases b) (auto simp: on_top_edge_def vadd_def top_mid_def)


text \<open>The anchors and label calls of the connectors of the block-merging scene, and the
  blocks and connectors of the two static scenes, evaluated.\<close>

lemma BlockMerging_anchor_facts:
  "case BlockMerging_run of
     None \<Rightarrow> False
   | Some (s1, h, s3) \<Rightarrow>
       (let bs = group_members (bm_blocks s1); as = group_members (bm_arrows s1);
            bs' = group_members (bm_blocks s3); as' = group_members (bm_arrows s3)
        in map start_anchor as
            = map (\<lambda>(from_idx, to_idx, label).
                Some (if from_idx = 4 then
                        (if to_idx = 5 then PAdd (get_left (bs ! nat from_idx)) (PMul LEFT 0.1)
                         else PAdd (get_right (bs ! nat from_idx)) (PMul RIGHT 0.1))
                      else PAdd (get_bottom (bs ! nat from_idx)) (PMul DOWN 0.1))) BlockMerging_connections
         \<and> map end_anchor as
            = map (\<lambda>(from_idx, to_idx, label). Some (PAdd (get_top (bs ! nat to_idx)) (PMul UP 0.1)))
                BlockMerging_connections
         \<and> map start_anchor (take 2 as')
            = [Some (PAdd (get_bottom (bs ! 0)) (PMul DOWN 0.1)), Some (PAdd (get_bottom (bs' ! 1)) (PMul DOWN 0.1))]
         \<and> map end_anchor (take 2 as')
            = [Some (PAdd (get_top (bs' ! 1)) (PMul UP 0.1)), Some (PAdd (get_top (bs ! 4)) (PMul UP 0.1))]
         \<and> map label_placement as
            = [None, None, None, None,
               Some (''true'', [SetOpacity 1, MoveTo (get_center (connector_arrow (as ! 4))), Shift (PMul LEFT 0.25)]),
               Some (''false'', [SetOpacity 1, MoveTo (get_center (connector_arrow (as ! 5))), Shift (PMul RIGHT 0.25)]),
               None, None, None]
         \<and> map label_placement (take 2 as') = [None, None])"
  by code_simp

lemma FinalCFG_facts:
  "case FinalCFG_build 0 of
     None \<Rightarrow> False
   | Some (blocks, arrows, h) \<Rightarrow>
      (let bs = submobjects blocks; as = submobjects arrows
       in length bs = 6 \<and> length as = 6
        \<and> map block_title bs = [''entry_block'', ''block_1'', ''block_2'', ''block_3'', ''block_4'', ''exit_block'']
        \<and> map block_statements bs
            = [[''int grade = 0;'', ''int score = 70;''], [''if (score >= 90)''],
               [''grade = 1;''], [''grade = 2;''], [''return grade;''], [''(empty)'']]
        \<and> map start_anchor as
            = map (\<lambda>(from_idx, to_idx, label).
                Some (if from_idx = 1 then
                        (if to_idx = 2 then PAdd (get_left (bs ! nat from_idx)) (PMul LEFT 0.15)
                         else PAdd (get_right (bs ! nat from_idx)) (PMul RIGHT 0.15))
                      else PAdd (get_bottom (bs ! nat from_idx)) (PMul DOWN 0.15))) FinalCFG_connections
        \<and> map end_anchor as
            = map (\<lambda>(from_idx, to_idx, label). Some (PAdd (get_top (bs ! nat to_idx)) (PMul UP 0.15)))
                FinalCFG_connections
        \<and> map label_placement as
            = [None,
               Some (''true'', [SetOpacity 1, MoveTo (get_center (connector_arrow (as ! 1))), Shift (PMul LEFT 0.3)]),
               Some (''false'', [SetOpacity 1, MoveTo (get_center (connector_arrow (as ! 2))), Shift (PMul RIGHT 0.3)]),
               None, None, None])"
  by code_simp

lemma BuildBasicBlocks_facts:
  "map block_title BuildBasicBlocks_blocks
     = [''entry_block'', ''block_1'', ''block_2'', ''block_3'', ''block_4'', ''exit_block'']
   \<and> map block_statements BuildBasicBlocks_blocks
     = [[''int grade = 0;'', ''int score = 70;''], [''if (score >= 90)''],
        [''grade = 1;''], [''grade = 2;''], [''return grade;''], [''(empty)'']]"
  by code_simp
lemma label_text_via: "label_text c = map_option fst (label_placement c)"
  by (simp add: label_text_def label_placement_def split: option.splits)

lemma label_position_via:
  "label_position bb c = (case label_placement c of None \<Rightarrow> None | Some (t, ms) \<Rightarrow> place bb ms None)"
  by (simp add: label_position_def label_placement_def split: option.splits)

lemma map_via: "map (g \<circ> f) xs = map g (map f xs)"
  by simp


text \<open>
  C8, as the code has it. For every geometry \<open>bb\<close> of the engine and every connector of the
  CFG scenes (the nine initial and the two new connectors of the block-merging scene, the
  six of the final-CFG scene): the end anchor is the middle of the top edge of the
  destination block's bounding box moved up by the scene's offset distance (0.1 in the
  block-merging scene, 0.15 in the final-CFG scene); the start anchor is the middle of the
  bottom edge of the source block's bounding box moved down by that distance, except for
  the two edges leaving the condition block, where it is the middle of the left edge moved
  left ("true" branch) and the middle of the right edge moved right ("false" branch). So
  an anchor is never on the edge itself (last conjunct). A connector has a label exactly
  when its connection has one; the label is put at the centre of the arrow and then shifted
  by a fixed offset (0.25, respectively 0.3), to the left for "true" and to the right for
  "false".
\<close>

theorem connector_anchors:
  "map (map_option (eval_pt bb) \<circ> end_anchor) initial_arrows
     = map (\<lambda>(from_idx, to_idx, label).
              Some (vadd (top_mid (bb (initial_blocks ! nat to_idx))) (0, 0.1, 0)))
         BlockMerging_connections
   \<and> map (map_option (eval_pt bb) \<circ> start_anchor) initial_arrows
     = map (\<lambda>(from_idx, to_idx, label).
              Some (if from_idx = 4 then
                      (if to_idx = 5 then vadd (left_mid (bb (initial_blocks ! 4))) (- 0.1, 0, 0)
                       else vadd (right_mid (bb (initial_blocks ! 4))) (0.1, 0, 0))
                    else vadd (bottom_mid (bb (initial_blocks ! nat from_idx))) (0, - 0.1, 0)))
         BlockMerging_connections
   \<and> map (map_option (eval_pt bb) \<circ> start_anchor) (take 2 merged_arrows)
     = [Some (vadd (bottom_mid (bb (initial_blocks ! 0))) (0, - 0.1, 0)),
        Some (vadd (bottom_mid (bb (merged_blocks ! 1))) (0, - 0.1, 0))]
   \<and> map (map_option (eval_pt bb) \<circ> end_anchor) (take 2 merged_arrows)
     = [Some (vadd (top_mid (bb (merged_blocks ! 1))) (0, 0.1, 0)),
        Some (vadd (top_mid (bb (initial_blocks ! 4))) (0, 0.1, 0))]
   \<and> map label_text initial_arrows = map (\<lambda>(from_idx, to_idx, label). label) BlockMerging_connections
   \<and> map (label_position bb) initial_arrows
     = [None, None, None, None,
        Some (vadd (box_center (bb (connector_arrow (initial_arrows ! 4)))) (- 0.25, 0, 0)),
        Some (vadd (box_center (bb (connector_arrow (initial_arrows ! 5)))) (0.25, 0, 0)),
        None, None, None]
   \<and> map label_text (take 2 merged_arrows) = [None, None]
   \<and> map (map_option (eval_pt bb) \<circ> end_anchor) FinalCFG_arrows
     = map (\<lambda>(from_idx, to_idx, label).
              Some (vadd (top_mid (bb (FinalCFG_blocks ! nat to_idx))) (0, 0.15, 0)))
         FinalCFG_connections
   \<and> map (map_option (eval_pt bb) \<circ> start_anchor) FinalCFG_arrows
     = map (\<lambda>(from_idx, to_idx, label).
              Some (if from_idx = 1 then
                      (if to_idx = 2 then vadd (left_mid (bb (FinalCFG_blocks ! 1))) (- 0.15, 0, 0)
                       else vadd (right_mid (bb (FinalCFG_blocks ! 1))) (0.15, 0, 0))
                    else vadd (bottom_mid (bb (FinalCFG_blocks ! nat from_idx))) (0, - 0.15, 0)))
         FinalCFG_connections
   \<and> map label_text FinalCFG_arrows = map (\<lambda>(from_idx, to_idx, label). label) FinalCFG_connections
   \<and> map (label_position bb) FinalCFG_arrows
     = [None,
        Some (vadd (box_center (bb (connector_arrow (FinalCFG_arrows ! 1)))) (- 0.3, 0, 0)),
        Some (vadd (box_center (bb (connector_arrow (FinalCFG_arrows ! 2)))) (0.3, 0, 0)),
        None, None, None]
   \<and> \<not> on_top_edge (bb (initial_blocks ! 1)) (vadd (top_mid (bb (initial_blocks ! 1))) (0, 0.1, 0))"
proof -
  obtain s1 h s3 where run: "BlockMerging_run = Some (s1, h, s3)"
    using BlockMerging_run_Some by blast
  have proj:
    "initial_blocks = group_members (bm_blocks s1)" "initial_arrows = group_members (bm_arrows s1)"
    "merged_blocks = group_members (bm_blocks s3)" "merged_arrows = group_members (bm_arrows s3)"
    by (simp_all add: run BlockMerging_projections)
  have bm:
    "map start_anchor initial_arrows
       = map (\<lambda>(from_idx, to_idx, label).
                Some (if from_idx = 4 then
                        (if to_idx = 5 then PAdd (get_left (initial_blocks ! nat from_idx)) (PMul LEFT 0.1)
                         else PAdd (get_right (initial_blocks ! nat from_idx)) (PMul RIGHT 0.1))
                      else PAdd (get_bottom (initial_blocks ! nat from_idx)) (PMul DOWN 0.1)))
           BlockMerging_connections"
    "map end_anchor initial_arrows
       = map (\<lambda>(from_idx, to_idx, label). Some (PAdd (get_top (initial_blocks ! nat to_idx)) (PMul UP 0.1)))
           BlockMerging_connections"
    "map start_anchor (take 2 merged_arrows)
       = [Some (PAdd (get_bottom (initial_blocks ! 0)) (PMul DOWN 0.1)),
          Some (PAdd (get_bottom (merged_blocks ! 1)) (PMul DOWN 0.1))]"
    "map end_anchor (take 2 merged_arrows)
       = [Some (PAdd (get_top (merged_blocks ! 1)) (PMul UP 0.1)),
          Some (PAdd (get_top (initial_blocks ! 4)) (PMul UP 0.1))]"
    "map label_placement initial_arrows
       = [None, None, None, None,
          Some (''true'', [SetOpacity 1, MoveTo (get_center (connector_arrow (initial_arrows ! 4))),
                           Shift (PMul LEFT 0.25)]),
          Some (''false'', [SetOpacity 1, MoveTo (get_center (connector_arrow (initial_arrows ! 5))),
                            Shift (PMul RIGHT 0.25)]),
          None, None, None]"
    "map label_placement (take 2 merged_arrows) = [None, None]"
    using BlockMerging_anchor_facts unfolding proj
    by (simp_all add: run Let_def)
  obtain blocks arrows h' where build: "FinalCFG_build 0 = Some (blocks, arrows, h')"
    using FinalCFG_facts by (cases "FinalCFG_build 0") auto
  have proj': "FinalCFG_blocks = submobjects blocks" "FinalCFG_arrows = submobjects arrows"
    by (simp_all add: build FinalCFG_blocks_def FinalCFG_arrows_def)
  have cfg:
    "map start_anchor FinalCFG_arrows
       = map (\<lambda>(from_idx, to_idx, label).
                Some (if from_idx = 1 then
                        (if to_idx = 2 then PAdd (get_left (FinalCFG_blocks ! nat from_idx)) (PMul LEFT 0.15)
                         else PAdd (get_right (FinalCFG_blocks ! nat from_idx)) (PMul RIGHT 0.15))
                      else PAdd (get_bottom (FinalCFG_blocks ! nat from_idx)) (PMul DOWN 0.15)))
           FinalCFG_connections"
    "map end_anchor FinalCFG_arrows
       = map (\<lambda>(from_idx, to_idx, label). Some (PAdd (get_top (FinalCFG_blocks ! nat to_idx)) (PMul UP 0.15)))
           FinalCFG_connections"
    "map label_placement FinalCFG_arrows
       = [None,
          Some (''true'', [SetOpacity 1, MoveTo (get_center (connector_arrow (FinalCFG_arrows ! 1))),
                           Shift (PMul LEFT 0.3)]),
          Some (''false'', [SetOpacity 1, MoveTo (get_center (connector_arrow (FinalCFG_arrows ! 2))),
                            Shift (PMul RIGHT 0.3)]),
          None, None, None]"
    using FinalCFG_facts unfolding proj'
    by (simp_all add: build Let_def)
  have lt: "label_text = map_option fst \<circ> label_placement"
    by (rule ext) (simp add: label_text_via)
  have lp: "label_position bb = (\<lambda>x. case x of None \<Rightarrow> None | Some (t, ms) \<Rightarrow> place bb ms None) \<circ> label_placement"
    by (rule ext) (simp add: label_position_via)
  show ?thesis
    unfolding lt lp map_via bm cfg
    by (simp add: BlockMerging_connections_def FinalCFG_connections_def eval_critical
          eval_direction not_on_top_edge)
qed

text \<open>
  C8, as stated, fails: it puts the destination anchor on the top edge of the destination
  box. For the first connector of the block-merging scene (entry to \<open>block_1\<close>), in the
  geometry where the block's bounding box is the square from \<open>(-1, -1)\<close> to \<open>(1, 1)\<close>, the
  end anchor is \<open>(0, 1.1, 0)\<close>, above the top edge \<open>y = 1\<close>.
\<close>

theorem connector_end_off_top_edge:
  "destination_id (initial_arrows ! 0) = Some (oid (initial_blocks ! 1))
   \<and> map_option (eval_pt unit_box) (end_anchor (initial_arrows ! 0)) = Some (0, 1.1, 0)
   \<and> \<not> on_top_edge (unit_box (initial_blocks ! 1)) (0, 1.1, 0)"
proof -
  obtain s1 h s3 where run: "BlockMerging_run = Some (s1, h, s3)"
    using BlockMerging_run_Some by blast
  have proj:
    "initial_blocks = group_members (bm_blocks s1)" "initial_arrows = group_members (bm_arrows s1)"
    by (simp_all add: run BlockMerging_projections)
  have len: "length initial_arrows = 9"
    using BlockMerging_run_facts unfolding proj by (simp add: run Let_def)
  have ends: "map end_anchor initial_arrows
       = map (\<lambda>(from_idx, to_idx, label). Some (PAdd (get_top (initial_blocks ! nat to_idx)) (PMul UP 0.1)))
           BlockMerging_connections"
    using BlockMerging_anchor_facts unfolding proj by (simp add: run Let_def)
  have "end_anchor (initial_arrows ! 0) = map end_anchor initial_arrows ! 0"
    using len by simp
  then have ea: "end_anchor (initial_arrows ! 0) = Some (PAdd (get_top (initial_blocks ! 1)) (PMul UP 0.1))"
    unfolding ends by (simp add: BlockMerging_connections_def)
  have d: "destination_id (initial_arrows ! 0) = Some (oid (initial_blocks ! 1))"
    by (simp add: destination_id_def ea get_top_def)
  show ?thesis
    by (simp add: d ea eval_critical eval_direction unit_box_def top_mid_def vadd_def on_top_edge_def)
qed


subsection \<open>The placeholder of an empty block\<close>

text \<open>
  C9. Given an empty statement list, the block box builder (each of its three copies)
  builds a box around exactly one line, the grey placeholder text "(empty)". In particular
  the exit blocks of the three scenes, built from empty statement lists, hold this one
  line.
\<close>

theorem empty_block_placeholder:
  "map shape (block_lines (fst (BuildBasicBlocks_create_block_box block_id [] c h)))
     = [Text ''(empty)'' 20 GRAY NORMAL []]
   \<and> boxed_lines (fst (BuildBasicBlocks_create_block_box block_id [] c h))
     = block_lines (fst (BuildBasicBlocks_create_block_box block_id [] c h))
   \<and> block_statements (fst (BuildBasicBlocks_create_block_box block_id [] c h)) = [''(empty)'']
   \<and> block_statements (fst (FinalCFG_create_block_box block_id [] c h)) = [''(empty)'']
   \<and> block_statements (fst (BlockMerging_create_block_box block_id [] c h)) = [''(empty)'']
   \<and> block_title (BuildBasicBlocks_blocks ! 5) = ''exit_block''
   \<and> block_statements (BuildBasicBlocks_blocks ! 5) = [''(empty)'']
   \<and> block_title (FinalCFG_blocks ! 5) = ''exit_block''
   \<and> block_statements (FinalCFG_blocks ! 5) = [''(empty)'']
   \<and> block_title (initial_blocks ! 8) = ''exit_block''
   \<and> block_statements (initial_blocks ! 8) = [''(empty)'']
   \<and> map text_content (boxed_lines (initial_blocks ! 8)) = [''(empty)'']"
proof -
  have builder:
    "map shape (block_lines (fst (BuildBasicBlocks_create_block_box block_id [] c h)))
       = [Text ''(empty)'' 20 GRAY NORMAL []]"
    "boxed_lines (fst (BuildBasicBlocks_create_block_box block_id [] c h))
       = block_lines (fst (BuildBasicBlocks_create_block_box block_id [] c h))"
    "block_statements (fst (BuildBasicBlocks_create_block_box block_id [] c h)) = [''(empty)'']"
    "block_statements (fst (FinalCFG_create_block_box block_id [] c h)) = [''(empty)'']"
    "block_statements (fst (BlockMerging_create_block_box block_id [] c h)) = [''(empty)'']"
    by (simp_all add: BuildBasicBlocks_create_block_box_def FinalCFG_create_block_box_def
          BlockMerging_create_block_box_def new_Text_def new_VGroup_def
          new_SurroundingRectangle_def block_lines_def boxed_lines_def
          block_statements_def text_content_def)
  have bbb: "length (map block_title BuildBasicBlocks_blocks) = 6"
    using BuildBasicBlocks_facts by simp
  have b5: "block_title (BuildBasicBlocks_blocks ! 5) = map block_title BuildBasicBlocks_blocks ! 5"
    "block_statements (BuildBasicBlocks_blocks ! 5) = map block_statements BuildBasicBlocks_blocks ! 5"
    using bbb by simp_all
  obtain blocks arrows h' where build: "FinalCFG_build 0 = Some (blocks, arrows, h')"
    using FinalCFG_facts by (cases "FinalCFG_build 0") auto
  have proj': "FinalCFG_blocks = submobjects blocks"
    by (simp add: build FinalCFG_blocks_def)
  have cfg: "length FinalCFG_blocks = 6"
    "map block_title FinalCFG_blocks
       = [''entry_block'', ''block_1'', ''block_2'', ''block_3'', ''block_4'', ''exit_block'']"
    "map block_statements FinalCFG_blocks
       = [[''int grade = 0;'', ''int score = 70;''], [''if (score >= 90)''],
          [''grade = 1;''], [''grade = 2;''], [''return grade;''], [''(empty)'']]"
    using FinalCFG_facts unfolding proj' by (simp_all add: build Let_def)
  have c5: "block_title (FinalCFG_blocks ! 5) = map block_title FinalCFG_blocks ! 5"
    "block_statements (FinalCFG_blocks ! 5) = map block_statements FinalCFG_blocks ! 5"
    using cfg(1) by simp_all
  obtain s1 h0 s3 where run: "BlockMerging_run = Some (s1, h0, s3)"
    using BlockMerging_run_Some by blast
  have proj: "initial_blocks = group_members (bm_blocks s1)"
    by (simp add: run BlockMerging_projections)
  have bm: "length initial_blocks = 9"
    "map block_title initial_blocks
       = [''entry_block'', ''block_1'', ''block_2'', ''block_3'', ''block_4'',
          ''block_5'', ''block_6'', ''block_7'', ''exit_block'']"
    "map block_statements initial_blocks
       = [[''int x = 0;'', ''int y = 1;''], [''x = x + 1;''], [''y = y * 2;''],
          [''int z = x + y;''], [''if (z > 10)''], [''x = 100;''], [''x = 200;''],
          [''return x;''], [''(empty)'']]"
    "map (\<lambda>b. map text_content (boxed_lines b)) initial_blocks
       = [[''int x = 0;'', ''int y = 1;''], [''x = x + 1;''], [''y = y * 2;''],
          [''int z = x + y;''], [''if (z > 10)''], [''x = 100;''], [''x = 200;''],
          [''return x;''], [''(empty)'']]"
    using BlockMerging_run_facts unfolding proj by (simp_all add: run Let_def)
  have i8: "block_title (initial_blocks ! 8) = map block_title initial_blocks ! 8"
    "block_statements (initial_blocks ! 8) = map block_statements initial_blocks ! 8"
    "map text_content (boxed_lines (initial_blocks ! 8))
       = map (\<lambda>b. map text_content (boxed_lines b)) initial_blocks ! 8"
    using bm(1) by simp_all
  show ?thesis
    unfolding b5 c5 i8 bm(4)
    unfolding bm(2,3) cfg(2,3)
    using BuildBasicBlocks_facts builder by simp
qed

subsection \<open>The AST scene, evaluated\<close>

text \<open>
  The run of the AST scene succeeds. In the facts below \<open>gs\<close> are the lines of tokens of the
  second stage, \<open>ns\<close> and \<open>as\<close> the nodes and connectors of the tree stage, and \<open>reveals\<close>
  the objects created by each \<open>play\<close> call of the tree stage.
\<close>

lemma ASTGeneration_run_facts:
  "case ASTGeneration_run of
     None \<Rightarrow> False
   | Some (s1, s2, s3, s4) \<Rightarrow>
       (let gs = (case ast_token_groups s2 of Some gs \<Rightarrow> gs | None \<Rightarrow> []);
            ns = (case ast_nodes s4 of Some ns \<Rightarrow> ns | None \<Rightarrow> []);
            as = (case ast_arrows s4 of Some as \<Rightarrow> as | None \<Rightarrow> []);
            token_events = drop (Suc (length (events s1))) (events s2);
            tree_events = drop (Suc (length (events s3))) (events s4);
            reveals = filter (\<lambda>ms. ms \<noteq> []) (map play_creates tree_events)
        in map text_content (group_members (ast_code_group s1)) = split (CHR 0x0A) source_code
         \<and> map displayed_token (concat (map play_writes token_events)) = tokens
         \<and> filter (\<lambda>ms. ms \<noteq> []) (map play_writes token_events) = map submobjects gs
         \<and> map (\<lambda>g. length (submobjects g)) gs = [6, 6, 6, 6, 6, 3]
         \<and> length ns = 10 \<and> length as = 9
         \<and> map node_label ns
             = [[''Program''], [''FunctionDeclaration'', ''checkGrade''], [''BlockStatement''],
                [''VariableDeclaration'', ''int grade = 0''],
                [''VariableDeclaration'', ''int score = 70''], [''IfStatement''],
                [''BinaryExpression'', ''>='', ''score, 90''],
                [''AssignmentStatement'', ''grade = 1''],
                [''AssignmentStatement'', ''grade = 2''],
                [''ReturnStatement'', ''return grade'']]
         \<and> distinct (map oid ns)
         \<and> map endpoints as
             = map (\<lambda>(i, j). (Some (oid (ns ! i)), Some (oid (ns ! j))))
                 [(0, 1), (1, 2), (2, 3), (2, 4), (2, 5), (5, 6), (5, 7), (5, 8), (2, 9)]
         \<and> map (in_degree as) ns = [0, 1, 1, 1, 1, 1, 1, 1, 1, 1]
         \<and> reveals
             = [[ns ! 0], [ns ! 1, as ! 0], [ns ! 2, as ! 1], [ns ! 3, as ! 2, ns ! 4, as ! 3],
                [ns ! 5, as ! 4], [ns ! 6, as ! 5, ns ! 7, as ! 6, ns ! 8, as ! 7],
                [ns ! 9, as ! 8]]
         \<and> children ns as (ns ! 2) = [ns ! 3, ns ! 4, ns ! 5, ns ! 9]
         \<and> children ns as (ns ! 5) = [ns ! 6, ns ! 7, ns ! 8]
         \<and> children ns as (ns ! 6) = []
         \<and> list_ex (\<lambda>ms. set (children ns as (ns ! 2)) \<subseteq> set ms) reveals = False)"
  by code_simp

lemma ASTGeneration_run_Some: "\<exists>s1 s2 s3 s4. ASTGeneration_run = Some (s1, s2, s3, s4)"
  using ASTGeneration_run_facts by (cases ASTGeneration_run) auto

text \<open>The lexemes of the source program, compared with the literal token list.\<close>

lemma lexemes_facts:
  "length (lexemes source_code) = 38
   \<and> length tokens = 33
   \<and> map fst tokens = take 10 (lexemes source_code) @ drop 15 (lexemes source_code)
   \<and> take 5 (drop 10 (lexemes source_code)) = [''int'', ''score'', ''='', ''70'', '';'']
   \<and> lexemes (split (CHR 0x0A) source_code ! 2) = [''int'', ''score'', ''='', ''70'', '';'']
   \<and> split (CHR 0x0A) source_code ! 2 = ''    int score = 70;''
   \<and> length (split (CHR 0x0A) source_code) = 10
   \<and> lexemes source_code = concat (map lexemes (split (CHR 0x0A) source_code))
   \<and> map fst tokens
       = concat (map lexemes (take 2 (split (CHR 0x0A) source_code)
                              @ drop 3 (split (CHR 0x0A) source_code)))
   \<and> lexemes source_code ! 10 = ''int'' \<and> fst (tokens ! 10) = ''if''"
  by code_simp


end
